theory Spec2Isabelle
  imports Main "HOL-Library.Sublist"
begin

section \<open>The browser platform\<close>

text \<open>
  The code under verification is the storage helpers of \<^verbatim>\<open>frontend/src/lib/utils.js\<close> and the
  HTTP client of \<^verbatim>\<open>frontend/src/lib/axios.js\<close> (an axios instance with one request interceptor
  and one response interceptor). Both run against the browser: the two Web Storage areas,
  \<^verbatim>\<open>navigator.userAgent\<close>, \<^verbatim>\<open>navigator.onLine\<close>, \<^verbatim>\<open>Date.now()\<close>,
  \<^verbatim>\<open>console.warn\<close> and \<^verbatim>\<open>JSON\<close>. This section models that platform; the sections after it
  translate the two source files function by function.
\<close>

subsection \<open>Exceptions\<close>

text \<open>
  The exceptions the platform calls used by the code can throw: a storage area that the
  browser refuses to hand out (\<^verbatim>\<open>SecurityError\<close>), a write over the quota
  (\<^verbatim>\<open>QuotaExceededError\<close>), \<^verbatim>\<open>JSON.parse\<close> on text that is not JSON
  (\<^verbatim>\<open>SyntaxError\<close>), and a property read on \<^verbatim>\<open>null\<close> or a value that
  \<^verbatim>\<open>JSON.stringify\<close> cannot serialise (\<^verbatim>\<open>TypeError\<close>).
\<close>

datatype exn = SecurityError | QuotaExceededError | SyntaxError | TypeError

subsection \<open>Web Storage\<close>

text \<open>
  A storage area maps keys to string values. \<open>blocked\<close>: every access to the area throws
  (storage disabled for the page). \<open>full\<close>: the quota is exhausted, so \<^verbatim>\<open>setItem\<close>
  throws while reads and removals still work. Neither flag is changed by the code.
\<close>

record storage =
  items :: "string \<rightharpoonup> string"
  blocked :: bool
  full :: bool

definition getItem :: "storage \<Rightarrow> string \<Rightarrow> exn + string option" where
  "getItem s k = (if blocked s then Inl SecurityError else Inr (items s k))"

definition setItem :: "storage \<Rightarrow> string \<Rightarrow> string \<Rightarrow> exn + storage" where
  "setItem s k v =
     (if blocked s then Inl SecurityError
      else if full s then Inl QuotaExceededError
      else Inr (s\<lparr>items := (items s)(k \<mapsto> v)\<rparr>))"

definition removeItem :: "storage \<Rightarrow> string \<Rightarrow> exn + storage" where
  "removeItem s k =
     (if blocked s then Inl SecurityError
      else Inr (s\<lparr>items := (items s)(k := None)\<rparr>))"

subsection \<open>The state of the browser tab, and computations over it\<close>

text \<open>
  \<open>console\<close> is the list of messages passed to \<^verbatim>\<open>console.warn\<close>, oldest first (the
  message text only, not the error object logged after it).
\<close>

record browser =
  localStorage :: storage
  sessionStorage :: storage
  userAgent :: string
  console :: "string list"

text \<open>
  A JavaScript computation takes the browser state and either completes with a value
  (\<open>Inr\<close>) or throws (\<open>Inl\<close>); in both cases it returns the state it has reached, so
  that writes made before a throw are kept, as in the browser.
\<close>

type_synonym 'a js = "browser \<Rightarrow> (exn + 'a) \<times> browser"

definition return :: "'a \<Rightarrow> 'a js" where
  "return x = (\<lambda>b. (Inr x, b))"

definition throw :: "exn \<Rightarrow> 'a js" where
  "throw e = (\<lambda>b. (Inl e, b))"

definition lift :: "exn + 'a \<Rightarrow> 'a js" where
  "lift r = (\<lambda>b. (r, b))"

definition bind :: "'a js \<Rightarrow> ('a \<Rightarrow> 'c js) \<Rightarrow> 'c js" where
  "bind m f = (\<lambda>b. case m b of (Inl e, b') \<Rightarrow> (Inl e, b') | (Inr x, b') \<Rightarrow> f x b')"

definition try_catch :: "'a js \<Rightarrow> (exn \<Rightarrow> 'a js) \<Rightarrow> 'a js" where
  "try_catch m h = (\<lambda>b. case m b of (Inl e, b') \<Rightarrow> h e b' | (Inr x, b') \<Rightarrow> (Inr x, b'))"

definition localStorage_getItem :: "string \<Rightarrow> string option js" where
  "localStorage_getItem k = (\<lambda>b. (getItem (localStorage b) k, b))"

definition localStorage_setItem :: "string \<Rightarrow> string \<Rightarrow> unit js" where
  "localStorage_setItem k v =
     (\<lambda>b. case setItem (localStorage b) k v of
            Inl e \<Rightarrow> (Inl e, b)
          | Inr s \<Rightarrow> (Inr (), b\<lparr>localStorage := s\<rparr>))"

definition localStorage_removeItem :: "string \<Rightarrow> unit js" where
  "localStorage_removeItem k =
     (\<lambda>b. case removeItem (localStorage b) k of
            Inl e \<Rightarrow> (Inl e, b)
          | Inr s \<Rightarrow> (Inr (), b\<lparr>localStorage := s\<rparr>))"

definition sessionStorage_getItem :: "string \<Rightarrow> string option js" where
  "sessionStorage_getItem k = (\<lambda>b. (getItem (sessionStorage b) k, b))"

definition sessionStorage_setItem :: "string \<Rightarrow> string \<Rightarrow> unit js" where
  "sessionStorage_setItem k v =
     (\<lambda>b. case setItem (sessionStorage b) k v of
            Inl e \<Rightarrow> (Inl e, b)
          | Inr s \<Rightarrow> (Inr (), b\<lparr>sessionStorage := s\<rparr>))"

definition sessionStorage_removeItem :: "string \<Rightarrow> unit js" where
  "sessionStorage_removeItem k =
     (\<lambda>b. case removeItem (sessionStorage b) k of
            Inl e \<Rightarrow> (Inl e, b)
          | Inr s \<Rightarrow> (Inr (), b\<lparr>sessionStorage := s\<rparr>))"

definition console_warn :: "string \<Rightarrow> unit js" where
  "console_warn msg = (\<lambda>b. (Inr (), b\<lparr>console := console b @ [msg]\<rparr>))"

subsection \<open>Strings and truthiness\<close>

text \<open>
  \<^verbatim>\<open>s.includes(sub)\<close>: \<open>sub\<close> occurs in \<open>s\<close> as a contiguous run.
\<close>

fun str_includes :: "string \<Rightarrow> string \<Rightarrow> bool" where
  "str_includes [] sub = (sub = [])"
| "str_includes (c # s) sub = (prefix sub (c # s) \<or> str_includes s sub)"

text \<open>
  A value read from storage, or passed as a token, is a string or \<^verbatim>\<open>null\<close> /
  \<^verbatim>\<open>undefined\<close> (\<open>None\<close>). JavaScript treats it as true in a condition when it is a
  non-empty string.
\<close>

definition truthy :: "string option \<Rightarrow> bool" where
  "truthy v = (case v of None \<Rightarrow> False | Some s \<Rightarrow> s \<noteq> [])"

text \<open>
  The \<^verbatim>\<open>/i\<close> flag of a regular expression folds the ASCII letters only (a character
  beyond ASCII is never folded onto an ASCII one).
\<close>

definition lower :: "char \<Rightarrow> char" where
  "lower c = (let n = (of_char c :: nat) in if 65 \<le> n \<and> n \<le> 90 then char_of (n + 32) else c)"

section \<open>utils.js: the storage helpers\<close>

text \<open>
  \<^verbatim>\<open>const isMobile = () => /Android|webOS|iPhone|iPad|iPod|BlackBerry|IEMobile|Opera Mini/i
      .test(navigator.userAgent)\<close>
\<close>

definition isMobile :: "bool js" where
  "isMobile =
     (\<lambda>b. (Inr (\<exists>alt \<in> set [''Android'', ''webOS'', ''iPhone'', ''iPad'', ''iPod'',
                               ''BlackBerry'', ''IEMobile'', ''Opera Mini''].
                 str_includes (map lower (userAgent b)) (map lower alt)), b))"

text \<open>Whether the user-agent test of \<open>isMobile\<close> succeeds in a browser state.\<close>

definition mobile :: "browser \<Rightarrow> bool" where
  "mobile b = (fst (isMobile b) = Inr True)"

text \<open>
  \<^verbatim>\<open>setAuthToken(token)\<close>: a truthy token is stored in \<^verbatim>\<open>localStorage\<close>, and in
  \<^verbatim>\<open>sessionStorage\<close> too on a mobile user agent; a falsy one removes the key from both
  areas. The whole body is inside \<^verbatim>\<open>try\<close>; the handler logs a warning.
\<close>

definition setAuthToken :: "string option \<Rightarrow> unit js" where
  "setAuthToken token =
     try_catch
       (if truthy token then
          bind (localStorage_setItem ''token'' (the token)) (\<lambda>_.
          bind isMobile (\<lambda>mobile.
          if mobile then sessionStorage_setItem ''token'' (the token) else return ()))
        else
          bind (localStorage_removeItem ''token'') (\<lambda>_.
          sessionStorage_removeItem ''token''))
       (\<lambda>error. console_warn ''Storage not available:'')"

text \<open>
  \<^verbatim>\<open>getAuthToken()\<close>: the \<^verbatim>\<open>localStorage\<close> token; when that is falsy and the user agent
  is mobile, the \<^verbatim>\<open>sessionStorage\<close> token. On an exception: a warning, and \<^verbatim>\<open>null\<close>.
\<close>

definition getAuthToken :: "string option js" where
  "getAuthToken =
     try_catch
       (bind (localStorage_getItem ''token'') (\<lambda>token.
        if \<not> truthy token then
          bind isMobile (\<lambda>mobile.
          if mobile then sessionStorage_getItem ''token'' else return token)
        else return token))
       (\<lambda>error. bind (console_warn ''Storage not available:'') (\<lambda>_. return None))"

text \<open>\<^verbatim>\<open>isAuthenticated = () => !!getAuthToken()\<close>\<close>

definition isAuthenticated :: "bool js" where
  "isAuthenticated = bind getAuthToken (\<lambda>token. return (truthy token))"

definition clearAuth :: "unit js" where
  "clearAuth =
     try_catch
       (bind (localStorage_removeItem ''token'') (\<lambda>_.
        bind (localStorage_removeItem ''user'') (\<lambda>_.
        bind (sessionStorage_removeItem ''token'') (\<lambda>_.
        sessionStorage_removeItem ''user''))))
       (\<lambda>error. console_warn ''Storage not available:'')"

text \<open>
  \<^verbatim>\<open>JSON.stringify\<close> and \<^verbatim>\<open>JSON.parse\<close> belong to the platform, not to the repository:
  they are parameters of the model. The code uses them at two types. For the user profile
  (type \<open>'u\<close>): \<open>stringify_user u\<close> is the text \<^verbatim>\<open>setItem\<close> receives for
  \<^verbatim>\<open>JSON.stringify(u)\<close>, and \<open>parse_user s\<close> is \<^verbatim>\<open>JSON.parse(s)\<close>, with \<open>None\<close> for
  \<^verbatim>\<open>null\<close>. For a cache entry with payload type \<open>'d\<close>: \<open>stringify_entry d t\<close> is
  \<^verbatim>\<open>JSON.stringify({data: d, timestamp: t})\<close>, and \<open>parse_entry s\<close> is \<^verbatim>\<open>JSON.parse(s)\<close> as
  the request interceptor looks at it: \<open>Null\<close> when the value is \<^verbatim>\<open>null\<close> (reading a
  property of it throws), otherwise \<open>Obj d t\<close> with \<open>d\<close> its \<^verbatim>\<open>data\<close> property and \<open>t\<close> its
  \<^verbatim>\<open>timestamp\<close> property as a number, \<open>None\<close> when that is missing or not a number
  (\<^verbatim>\<open>NaN\<close> in the subtraction). Timestamps are integers, as \<^verbatim>\<open>Date.now()\<close> produces them.
\<close>

datatype 'd parsed = Null | Obj 'd "int option"

record ('d, 'u) json =
  stringify_user :: "'u \<Rightarrow> exn + string"
  parse_user :: "string \<Rightarrow> exn + 'u option"
  stringify_entry :: "'d \<Rightarrow> int \<Rightarrow> exn + string"
  parse_entry :: "string \<Rightarrow> exn + 'd parsed"

definition setUser :: "('d, 'u) json \<Rightarrow> 'u \<Rightarrow> unit js" where
  "setUser J user =
     try_catch
       (bind (lift (stringify_user J user)) (\<lambda>s.
        bind (localStorage_setItem ''user'' s) (\<lambda>_.
        bind isMobile (\<lambda>mobile.
        if mobile then
          bind (lift (stringify_user J user)) (\<lambda>s'. sessionStorage_setItem ''user'' s')
        else return ()))))
       (\<lambda>error. console_warn ''Storage not available:'')"

definition getUser :: "('d, 'u) json \<Rightarrow> 'u option js" where
  "getUser J =
     try_catch
       (bind (localStorage_getItem ''user'') (\<lambda>user.
        bind (if \<not> truthy user then
                bind isMobile (\<lambda>mobile.
                if mobile then sessionStorage_getItem ''user'' else return user)
              else return user) (\<lambda>user.
        if truthy user then lift (parse_user J (the user)) else return None)))
       (\<lambda>error. bind (console_warn ''Storage not available:'') (\<lambda>_. return None))"

section \<open>axios.js: the HTTP client\<close>

subsection \<open>Requests, responses, errors\<close>

text \<open>
  \<^verbatim>\<open>const retryConfig = { retries: 3, retryDelay: 1000, retryCondition: ... }\<close> is one
  object, created when the module is loaded. \<open>retry_config\<close> is the state of that object
  (its two numeric fields; the counter only ever goes down, and only while it is positive).
\<close>

record retry_config =
  retries :: nat
  retryDelay :: nat

definition retryConfig :: retry_config where
  "retryConfig = \<lparr>retries = 3, retryDelay = 1000\<rparr>"

text \<open>
  \<^verbatim>\<open>config.retry = retryConfig\<close> stores a reference, not a copy: \<open>RetryConfig\<close> is the
  address of the module's object, and \<open>config.retry.retries\<close> reads and writes the
  \<open>retry_config\<close> state.
\<close>

datatype retry_ref = RetryConfig

text \<open>
  The request configuration as the interceptors see it: axios has already lower-cased
  \<open>config.method\<close>, and \<open>config.url\<close> is the path given by the caller (the base URL is
  added later, by the adapter).
\<close>

record config =
  url :: string
  http_method :: string
  headers :: "string \<rightharpoonup> string"
  retry :: "retry_ref option"

text \<open>
  A response: its payload and its HTTP status. \<open>response.config\<close> is always the
  configuration the request was dispatched with; the model passes it beside the response.
\<close>

record 'd response =
  data :: 'd
  status :: int

text \<open>
  What a rejected promise of the chain carries:
  \<^item> \<open>OfflineCached r\<close>: \<^verbatim>\<open>{response: {data: parsed.data, status: 200},
    message: "Offline cached response", isOfflineCache: true}\<close>;
  \<^item> \<open>OfflineNoCache\<close>: \<^verbatim>\<open>{message: "No internet connection and no cached data available",
    isOffline: true}\<close>;
  \<^item> \<open>Exception e\<close>: an exception thrown inside an interceptor;
  \<^item> \<open>AxiosError code response config\<close>: the error the adapter rejects with.
\<close>

datatype 'd error =
    OfflineCached "'d response"
  | OfflineNoCache
  | Exception exn
  | AxiosError "string option" "'d response option" config

fun message :: "'d error \<Rightarrow> string option" where
  "message (OfflineCached r) = Some ''Offline cached response''"
| "message OfflineNoCache = Some ''No internet connection and no cached data available''"
| "message (Exception e) = None"
| "message (AxiosError c r cfg) = None"

fun error_code :: "'d error \<Rightarrow> string option" where
  "error_code (AxiosError c r cfg) = c"
| "error_code (OfflineCached r) = None"
| "error_code OfflineNoCache = None"
| "error_code (Exception e) = None"

fun error_response :: "'d error \<Rightarrow> 'd response option" where
  "error_response (AxiosError c r cfg) = r"
| "error_response (OfflineCached r) = Some r"
| "error_response OfflineNoCache = None"
| "error_response (Exception e) = None"

fun error_config :: "'d error \<Rightarrow> config option" where
  "error_config (AxiosError c r cfg) = Some cfg"
| "error_config (OfflineCached r) = None"
| "error_config OfflineNoCache = None"
| "error_config (Exception e) = None"

text \<open>
  \<^verbatim>\<open>retryCondition: (error) => error.code === "NETWORK_ERROR" || error.code === "TIMEOUT" ||
      (error.response && error.response.status >= 500)\<close>
\<close>

definition retryCondition :: "'d error \<Rightarrow> bool" where
  "retryCondition error =
     (error_code error = Some ''NETWORK_ERROR'' \<or>
      error_code error = Some ''TIMEOUT'' \<or>
      (case error_response error of None \<Rightarrow> False | Some r \<Rightarrow> status r \<ge> 500))"

subsection \<open>The request interceptor\<close>

text \<open>
  \<open>onLine\<close> is \<^verbatim>\<open>navigator.onLine\<close> and \<open>now\<close> is \<^verbatim>\<open>Date.now()\<close> when the interceptor
  runs. The result \<open>Inr config\<close> goes on to the adapter; \<open>Inl error\<close> is
  \<^verbatim>\<open>Promise.reject(error)\<close>. The read of the cache entry is not inside a \<^verbatim>\<open>try\<close>.
\<close>

definition fresh :: "int \<Rightarrow> int option \<Rightarrow> bool" where
  "fresh now timestamp =
     (case timestamp of None \<Rightarrow> False | Some t \<Rightarrow> now - t < 24 * 60 * 60 * 1000)"

definition request_fulfilled ::
  "('d, 'u) json \<Rightarrow> bool \<Rightarrow> int \<Rightarrow> config \<Rightarrow> ('d error + config) js" where
  "request_fulfilled J onLine now cfg =
     bind getAuthToken (\<lambda>token.
     let cfg1 = (if truthy token
                 then cfg\<lparr>headers := (headers cfg)(''Authorization'' \<mapsto> ''Bearer '' @ the token)\<rparr>
                 else cfg);
         cfg2 = cfg1\<lparr>retry := Some RetryConfig\<rparr>;
         isAuthEndpoint = str_includes (url cfg2) ''/auth/''
     in
       if \<not> onLine \<and> \<not> isAuthEndpoint then
         (let cacheKey = http_method cfg2 @ ''-'' @ url cfg2 in
          bind (localStorage_getItem (''api-cache-'' @ cacheKey)) (\<lambda>cached.
          if truthy cached then
            bind (lift (parse_entry J (the cached))) (\<lambda>parsed.
            case parsed of
              Null \<Rightarrow> throw TypeError
            | Obj d timestamp \<Rightarrow>
                if fresh now timestamp
                then return (Inl (OfflineCached \<lparr>data = d, status = 200\<rparr>))
                else return (Inl OfflineNoCache))
          else return (Inl OfflineNoCache)))
       else return (Inr cfg2))"

text \<open>
  In the promise chain an exception thrown by the interceptor rejects the promise like a
  returned \<^verbatim>\<open>Promise.reject\<close> does.
\<close>

definition run_request ::
  "('d, 'u) json \<Rightarrow> bool \<Rightarrow> int \<Rightarrow> config \<Rightarrow> browser \<Rightarrow> ('d error + config) \<times> browser" where
  "run_request J onLine now cfg b =
     (case request_fulfilled J onLine now cfg b of
        (Inl e, b') \<Rightarrow> (Inl (Exception e), b')
      | (Inr r, b') \<Rightarrow> (r, b'))"

subsection \<open>The response interceptor\<close>

text \<open>
  The success handler: a response to a \<^verbatim>\<open>get\<close>, while online, is written to
  \<^verbatim>\<open>localStorage\<close> under \<^verbatim>\<open>api-cache-<method>-<url>\<close>; the write is inside \<^verbatim>\<open>try\<close>.
  The response is returned in every case.
\<close>

definition response_fulfilled ::
  "('d, 'u) json \<Rightarrow> bool \<Rightarrow> int \<Rightarrow> config \<Rightarrow> 'd response \<Rightarrow> 'd response js" where
  "response_fulfilled J onLine now cfg response =
     bind (if http_method cfg = ''get'' \<and> onLine then
             (let cacheKey = http_method cfg @ ''-'' @ url cfg in
              try_catch
                (bind (lift (stringify_entry J (data response) now)) (\<lambda>s.
                 localStorage_setItem (''api-cache-'' @ cacheKey) s))
                (\<lambda>error. console_warn ''Cache storage failed:''))
           else return ()) (\<lambda>_.
     return response)"

text \<open>
  The error handler decides between three things: resolve with a response, reject with
  the error, or wait \<open>retryDelay\<close> milliseconds and send the configuration again. It reads
  and decrements the counter of the shared \<open>retryConfig\<close> object.
\<close>

datatype 'd verdict = Resolve "'d response" | Reject "'d error" | Retry config nat

definition response_rejected :: "'d error \<Rightarrow> retry_config \<Rightarrow> 'd verdict \<times> retry_config" where
  "response_rejected error rc =
     (case error of
        OfflineCached r \<Rightarrow> (Resolve r, rc)
      | _ \<Rightarrow>
        (case error_config error of
           None \<Rightarrow> (Reject error, rc)
         | Some cfg \<Rightarrow>
           (case retry cfg of
              None \<Rightarrow> (Reject error, rc)
            | Some RetryConfig \<Rightarrow>
                if 0 < retries rc \<and> retryCondition error
                then (Retry cfg (retryDelay rc), rc\<lparr>retries := retries rc - 1\<rparr>)
                else (Reject error, rc))))"

subsection \<open>Sending a request\<close>

text \<open>
  The network and the environment are inputs. For attempt number \<open>k\<close> of a request,
  \<open>net k\<close> tells what \<^verbatim>\<open>navigator.onLine\<close> and \<^verbatim>\<open>Date.now()\<close> return when the request
  interceptor runs, how the adapter settles the request if it is dispatched, and what the
  two return when the response interceptor runs.
\<close>

datatype 'd adapter_result =
    Fulfilled 'd int
  | Rejected "string option" "'d response option"

record 'd attempt =
  onLine_request :: bool
  now_request :: int
  adapter :: "'d adapter_result"
  onLine_response :: bool
  now_response :: int

text \<open>What a send does besides changing the state: dispatches and timers, in order.\<close>

datatype event = Dispatch config | SetTimeout nat

text \<open>
  One pass through the chain, up to the response error handler: the request interceptor,
  the adapter, the response success handler. \<open>Inr\<close>: the chain is settled with a response.
  \<open>Inl\<close>: an error for the response error handler.
\<close>

definition pass ::
  "('d, 'u) json \<Rightarrow> 'd attempt \<Rightarrow> config \<Rightarrow> browser \<Rightarrow>
     ('d error + ('d error + 'd response)) \<times> browser \<times> event list" where
  "pass J a cfg b =
     (case run_request J (onLine_request a) (now_request a) cfg b of
        (Inl err, b1) \<Rightarrow> (Inl err, b1, [])
      | (Inr cfg', b1) \<Rightarrow>
        (case adapter a of
           Rejected c r \<Rightarrow> (Inl (AxiosError c r cfg'), b1, [Dispatch cfg'])
         | Fulfilled d s \<Rightarrow>
           (case response_fulfilled J (onLine_response a) (now_response a) cfg'
                   \<lparr>data = d, status = s\<rparr> b1 of
              (Inl e, b2) \<Rightarrow> (Inr (Inl (Exception e)), b2, [Dispatch cfg'])
            | (Inr r, b2) \<Rightarrow> (Inr (Inr r), b2, [Dispatch cfg']))))"

text \<open>
  \<^verbatim>\<open>axiosInstance(config)\<close>: the pass, then the response error handler, which on a retry
  calls \<^verbatim>\<open>axiosInstance(config)\<close> again after the delay.
\<close>

function send ::
  "('d, 'u) json \<Rightarrow> (nat \<Rightarrow> 'd attempt) \<Rightarrow> nat \<Rightarrow> config \<Rightarrow> retry_config \<Rightarrow> browser \<Rightarrow>
     ('d error + 'd response) \<times> retry_config \<times> browser \<times> event list" where
  "send J net k cfg rc b =
     (case pass J (net k) cfg b of
        (Inr settled, b1, tr) \<Rightarrow> (settled, rc, b1, tr)
      | (Inl err, b1, tr) \<Rightarrow>
        (case response_rejected err rc of
           (Resolve r, rc') \<Rightarrow> (Inr r, rc', b1, tr)
         | (Reject e, rc') \<Rightarrow> (Inl e, rc', b1, tr)
         | (Retry cfg' delay, rc') \<Rightarrow>
           (case send J net (Suc k) cfg' rc' b1 of
              (result, rc'', b2, tr') \<Rightarrow> (result, rc'', b2, tr @ SetTimeout delay # tr'))))"
  by pat_completeness auto
termination
  by (relation "measure (\<lambda>(J, net, k, cfg, rc, b). retries rc)")
     (auto simp: response_rejected_def split: error.splits option.splits retry_ref.splits if_splits)

declare send.simps [simp del]

section \<open>Observations on a send\<close>

text \<open>
  What the statements below read off the list of events of a send: the configurations
  dispatched, in order; the timer delays, in order; and whether every attempt was
  dispatched (the events alternate, starting and ending with a dispatch).
\<close>

fun dispatched :: "event list \<Rightarrow> config list" where
  "dispatched [] = []"
| "dispatched (Dispatch c # tr) = c # dispatched tr"
| "dispatched (SetTimeout d # tr) = dispatched tr"

fun delays :: "event list \<Rightarrow> nat list" where
  "delays [] = []"
| "delays (Dispatch c # tr) = delays tr"
| "delays (SetTimeout d # tr) = d # delays tr"

fun all_dispatched :: "event list \<Rightarrow> bool" where
  "all_dispatched [Dispatch c] = True"
| "all_dispatched (Dispatch c # SetTimeout d # tr) = all_dispatched tr"
| "all_dispatched tr = False"

text \<open>
  The headers the request interceptor leaves on a configuration when \<^verbatim>\<open>getAuthToken()\<close>
  returns \<open>token\<close>.
\<close>

definition attach :: "string option \<Rightarrow> config \<Rightarrow> string \<rightharpoonup> string" where
  "attach token cfg =
     (if truthy token then (headers cfg)(''Authorization'' \<mapsto> ''Bearer '' @ the token)
      else headers cfg)"

text \<open>The four components of what a send returns.\<close>

definition result_of :: "'r \<times> retry_config \<times> browser \<times> event list \<Rightarrow> 'r" where
  "result_of s = fst s"

definition counter_of :: "'r \<times> retry_config \<times> browser \<times> event list \<Rightarrow> retry_config" where
  "counter_of s = fst (snd s)"

definition browser_of :: "'r \<times> retry_config \<times> browser \<times> event list \<Rightarrow> browser" where
  "browser_of s = fst (snd (snd s))"

definition events_of :: "'r \<times> retry_config \<times> browser \<times> event list \<Rightarrow> event list" where
  "events_of s = snd (snd (snd s))"

section \<open>Concrete inputs\<close>

text \<open>
  A browser with the token \<^verbatim>\<open>abc\<close> stored, on a desktop user agent; the dashboard
  request of the student dashboard page; and three networks: one that answers every
  request with the payload \<open>5\<close> (standing for \<^verbatim>\<open>{code_submissions: 5}\<close>) at time 1000,
  one that is offline at time 2000, and one whose server answers every request with
  status 503. The JSON functions are given on the one cache entry these inputs produce.
\<close>

definition example_json :: "(nat, string) json" where
  "example_json =
     \<lparr>stringify_user = (\<lambda>u. Inr u),
      parse_user = (\<lambda>s. Inr (Some s)),
      stringify_entry = (\<lambda>d t. if d = 5 \<and> t = 1000
                                   then Inr ''{data:{code_submissions:5},timestamp:1000}''
                                   else Inl TypeError),
      parse_entry = (\<lambda>s. if s = ''{data:{code_submissions:5},timestamp:1000}''
                            then Inr (Obj 5 (Some 1000)) else Inl SyntaxError)\<rparr>"

definition example_browser :: browser where
  "example_browser =
     \<lparr>localStorage = \<lparr>items = [''token'' \<mapsto> ''abc''], blocked = False, full = False\<rparr>,
      sessionStorage = \<lparr>items = Map.empty, blocked = False, full = False\<rparr>,
      userAgent = ''Mozilla/5.0'', console = []\<rparr>"

definition example_online :: "nat \<Rightarrow> nat attempt" where
  "example_online = (\<lambda>k. \<lparr>onLine_request = True, now_request = 1000, adapter = Fulfilled 5 200,
                             onLine_response = True, now_response = 1000\<rparr>)"

definition example_offline :: "nat \<Rightarrow> nat attempt" where
  "example_offline = (\<lambda>k. \<lparr>onLine_request = False, now_request = 2000,
                              adapter = Rejected (Some ''ERR_NETWORK'') None,
                              onLine_response = False, now_response = 2000\<rparr>)"

definition example_failing :: "nat \<Rightarrow> nat attempt" where
  "example_failing = (\<lambda>k. \<lparr>onLine_request = True, now_request = 1000,
                              adapter = Rejected None (Some \<lparr>data = 0, status = 503\<rparr>),
                              onLine_response = True, now_response = 1000\<rparr>)"

definition example_request :: "string \<Rightarrow> string \<Rightarrow> config" where
  "example_request m path = \<lparr>url = path, http_method = m, headers = Map.empty, retry = None\<rparr>"

definition example_mobile :: browser where
  "example_mobile =
     \<lparr>localStorage = \<lparr>items = [''token'' \<mapsto> ''abc''], blocked = False, full = False\<rparr>,
      sessionStorage = \<lparr>items = [''token'' \<mapsto> ''abc''], blocked = False, full = False\<rparr>,
      userAgent = ''iPhone'', console = []\<rparr>"

definition example_blocked :: browser where
  "example_blocked =
     \<lparr>localStorage = \<lparr>items = Map.empty, blocked = True, full = False\<rparr>,
      sessionStorage = \<lparr>items = Map.empty, blocked = True, full = False\<rparr>,
      userAgent = ''Mozilla/5.0'', console = []\<rparr>"

definition example_unavailable :: browser where
  "example_unavailable =
     \<lparr>localStorage = \<lparr>items = [''token'' \<mapsto> ''abc''], blocked = True, full = True\<rparr>,
      sessionStorage = \<lparr>items = Map.empty, blocked = True, full = True\<rparr>,
      userAgent = ''Mozilla/5.0'', console = []\<rparr>"

definition example_cleared :: browser where
  "example_cleared = ((\<lambda>x. snd (getAuthToken x)) ^^ 2) (snd (clearAuth example_mobile))"

text \<open>
  A mobile browser whose \<^verbatim>\<open>localStorage\<close> is full and whose \<^verbatim>\<open>sessionStorage\<close> is blocked;
  and the dashboard request as the request interceptor leaves it when the token \<^verbatim>\<open>abc\<close> is
  stored: the configuration a retry sends again.
\<close>

definition example_quota :: browser where
  "example_quota =
     \<lparr>localStorage = \<lparr>items = [''token'' \<mapsto> ''abc''], blocked = False, full = True\<rparr>,
      sessionStorage = \<lparr>items = Map.empty, blocked = True, full = False\<rparr>,
      userAgent = ''iPhone'', console = []\<rparr>"

definition example_pending :: config where
  "example_pending =
     \<lparr>url = ''/dashboard/stats'', http_method = ''get'',
      headers = [''Authorization'' \<mapsto> ''Bearer abc''], retry = Some RetryConfig\<rparr>"

section \<open>Properties of the storage helpers and the interceptors\<close>

subsection \<open>What one interceptor run changes\<close>

lemmas js_defs = return_def throw_def lift_def bind_def try_catch_def
  localStorage_getItem_def localStorage_setItem_def localStorage_removeItem_def
  sessionStorage_getItem_def sessionStorage_setItem_def sessionStorage_removeItem_def
  console_warn_def getItem_def setItem_def removeItem_def

lemma getAuthToken_frame:
  "getAuthToken b = (r, b') \<Longrightarrow>
     (\<exists>t. r = Inr t) \<and> localStorage b' = localStorage b \<and> sessionStorage b' = sessionStorage b
       \<and> userAgent b' = userAgent b"
  by (auto simp: getAuthToken_def isMobile_def js_defs split: if_splits sum.splits prod.splits)

lemma getAuthToken_depends:
  "blocked (localStorage b') = blocked (localStorage b) \<Longrightarrow>
   items (localStorage b') ''token'' = items (localStorage b) ''token'' \<Longrightarrow>
   sessionStorage b' = sessionStorage b \<Longrightarrow> userAgent b' = userAgent b \<Longrightarrow>
   fst (getAuthToken b') = fst (getAuthToken b)"
  by (auto simp: getAuthToken_def isMobile_def js_defs split: if_splits sum.splits prod.splits)

lemma run_request_frame:
  "run_request J onLine now cfg b = (r, b') \<Longrightarrow>
     localStorage b' = localStorage b \<and> sessionStorage b' = sessionStorage b
       \<and> userAgent b' = userAgent b"
  by (auto simp: run_request_def request_fulfilled_def Let_def js_defs
        dest!: getAuthToken_frame
        split: if_splits sum.splits prod.splits parsed.splits)

lemma run_request_passes:
  "run_request J onLine now cfg b = (Inr cfg', b') \<Longrightarrow>
     url cfg' = url cfg \<and> http_method cfg' = http_method cfg \<and> retry cfg' = Some RetryConfig
     \<and> (onLine \<or> str_includes (url cfg) ''/auth/'')"
  by (auto simp: run_request_def request_fulfilled_def Let_def js_defs
        split: if_splits sum.splits prod.splits parsed.splits)

lemma run_request_headers:
  "run_request J onLine now cfg b = (Inr cfg', b') \<Longrightarrow> fst (getAuthToken b) = Inr token \<Longrightarrow>
     headers cfg' = (if truthy token
                        then (headers cfg)(''Authorization'' \<mapsto> ''Bearer '' @ the token)
                        else headers cfg)"
  by (auto simp: run_request_def request_fulfilled_def Let_def js_defs
        split: if_splits sum.splits prod.splits parsed.splits)

lemma run_request_error:
  "run_request J onLine now cfg b = (Inl e, b') \<Longrightarrow>
     error_config e = None \<and> \<not> onLine \<and> \<not> str_includes (url cfg) ''/auth/''"
  by (auto simp: run_request_def request_fulfilled_def Let_def js_defs
        dest!: getAuthToken_frame
        split: if_splits sum.splits prod.splits parsed.splits)

lemma response_fulfilled_result:
  "response_fulfilled J onLine now cfg r b = (x, b') \<Longrightarrow>
     x = Inr r \<and> sessionStorage b' = sessionStorage b \<and> userAgent b' = userAgent b
     \<and> (localStorage b' = localStorage b
        \<or> (http_method cfg = ''get'' \<and> onLine \<and>
           (\<exists>s. localStorage b' = (localStorage b)\<lparr>items := (items (localStorage b))(''api-cache-get-'' @ url cfg \<mapsto> s)\<rparr>)))"
  by (auto simp: response_fulfilled_def Let_def js_defs
        split: if_splits sum.splits prod.splits)

text \<open>The three verdicts of the response error handler.\<close>

lemma response_rejected_Retry:
  "response_rejected err rc = (Retry cfg' d, rc') \<Longrightarrow>
     error_config err = Some cfg' \<and> d = retryDelay rc \<and> rc' = rc\<lparr>retries := retries rc - 1\<rparr>
     \<and> 0 < retries rc \<and> retryCondition err"
  by (auto simp: response_rejected_def split: error.splits option.splits retry_ref.splits if_splits)

lemma response_rejected_Resolve:
  "response_rejected err rc = (Resolve r, rc') \<Longrightarrow> err = OfflineCached r \<and> rc' = rc"
  by (auto simp: response_rejected_def split: error.splits option.splits retry_ref.splits if_splits)

lemma response_rejected_Reject:
  "response_rejected err rc = (Reject e, rc') \<Longrightarrow>
     e = err \<and> rc' = rc \<and> (\<forall>r. err \<noteq> OfflineCached r)
     \<and> (error_config err = None \<or> retries rc = 0 \<or> \<not> retryCondition err
        \<or> (\<exists>c. error_config err = Some c \<and> retry c = None))"
  by (auto simp: response_rejected_def split: error.splits option.splits retry_ref.splits if_splits)

subsection \<open>What the helpers and the cache write return and log, in every storage state\<close>

lemma isMobile_mobile: "isMobile b = (Inr (mobile b), b)"
  by (simp add: isMobile_def mobile_def)

lemma mobile_update [simp]:
  "mobile (b\<lparr>localStorage := s\<rparr>) = mobile b"
  "mobile (b\<lparr>sessionStorage := s\<rparr>) = mobile b"
  "mobile (b\<lparr>console := c\<rparr>) = mobile b"
  by (simp_all add: mobile_def isMobile_def)

lemma setAuthToken_logs:
  "console (snd (setAuthToken token b)) =
     (if (if truthy token
          then blocked (localStorage b) \<or> full (localStorage b)
               \<or> (mobile b \<and> (blocked (sessionStorage b) \<or> full (sessionStorage b)))
          else blocked (localStorage b) \<or> blocked (sessionStorage b))
      then console b @ [''Storage not available:''] else console b)"
  by (simp add: setAuthToken_def js_defs isMobile_mobile)

lemma getAuthToken_exact:
  "getAuthToken b =
     (if blocked (localStorage b)
         \<or> (\<not> truthy (items (localStorage b) ''token'') \<and> mobile b \<and> blocked (sessionStorage b))
      then (Inr None, b\<lparr>console := console b @ [''Storage not available:'']\<rparr>)
      else (Inr (if \<not> truthy (items (localStorage b) ''token'') \<and> mobile b
                 then items (sessionStorage b) ''token''
                 else items (localStorage b) ''token''), b))"
  by (simp add: getAuthToken_def js_defs isMobile_mobile)

lemma clearAuth_logs:
  "console (snd (clearAuth b)) =
     (if blocked (localStorage b) \<or> blocked (sessionStorage b)
      then console b @ [''Storage not available:''] else console b)"
  by (simp add: clearAuth_def js_defs)

lemma setUser_logs:
  "console (snd (setUser J user b)) =
     (if isl (stringify_user J user)
         \<or> blocked (localStorage b) \<or> full (localStorage b)
         \<or> (mobile b \<and> (blocked (sessionStorage b) \<or> full (sessionStorage b)))
      then console b @ [''Storage not available:''] else console b)"
  by (cases "stringify_user J user") (simp_all add: setUser_def js_defs isMobile_mobile)

lemma getUser_exact:
  "getUser J b =
     (let stored = (if \<not> truthy (items (localStorage b) ''user'') \<and> mobile b
                    then items (sessionStorage b) ''user''
                    else items (localStorage b) ''user'')
      in if blocked (localStorage b)
            \<or> (\<not> truthy (items (localStorage b) ''user'') \<and> mobile b \<and> blocked (sessionStorage b))
            \<or> (truthy stored \<and> isl (parse_user J (the stored)))
         then (Inr None, b\<lparr>console := console b @ [''Storage not available:'']\<rparr>)
         else (if truthy stored then Inr (projr (parse_user J (the stored))) else Inr None, b))"
  by (auto simp: getUser_def js_defs isMobile_mobile Let_def split: sum.splits)

lemma response_fulfilled_exact:
  "response_fulfilled J onLine now cfg response b =
     (Inr response,
      if http_method cfg = ''get'' \<and> onLine then
        (if isl (stringify_entry J (data response) now)
            \<or> blocked (localStorage b) \<or> full (localStorage b)
         then b\<lparr>console := console b @ [''Cache storage failed:'']\<rparr>
         else b\<lparr>localStorage := (localStorage b)\<lparr>items := (items (localStorage b))
                  (''api-cache-'' @ http_method cfg @ ''-'' @ url cfg
                     \<mapsto> projr (stringify_entry J (data response) now))\<rparr>\<rparr>)
      else b)"
  by (cases "stringify_entry J (data response) now")
     (simp_all add: response_fulfilled_def js_defs Let_def)

subsection \<open>One pass through the chain\<close>

lemma pass_frame:
  "pass J a cfg b = (x, b', tr) \<Longrightarrow>
     sessionStorage b' = sessionStorage b \<and> userAgent b' = userAgent b
     \<and> (localStorage b' = localStorage b
        \<or> (http_method cfg = ''get'' \<and> (\<exists>r. x = Inr (Inr r)) \<and>
           (\<exists>s. localStorage b' = (localStorage b)\<lparr>items := (items (localStorage b))(''api-cache-get-'' @ url cfg \<mapsto> s)\<rparr>)))"
proof -
  assume p: "pass J a cfg b = (x, b', tr)"
  obtain q b1 where rq: "run_request J (onLine_request a) (now_request a) cfg b = (q, b1)"
    by (cases "run_request J (onLine_request a) (now_request a) cfg b") auto
  note f1 = run_request_frame[OF rq]
  show ?thesis
  proof (cases q)
    case (Inl err)
    with p rq have "b' = b1" by (simp add: pass_def)
    with f1 show ?thesis by simp
  next
    case (Inr cfg')
    note c = run_request_passes[OF rq[unfolded Inr]]
    show ?thesis
    proof (cases "adapter a")
      case (Rejected c r)
      with p rq Inr have "b' = b1" by (simp add: pass_def)
      with f1 show ?thesis by simp
    next
      case (Fulfilled d s)
      obtain y b2 where rf: "response_fulfilled J (onLine_response a) (now_response a) cfg'
                   \<lparr>data = d, status = s\<rparr> b1 = (y, b2)"
        by (cases "response_fulfilled J (onLine_response a) (now_response a) cfg'
                   \<lparr>data = d, status = s\<rparr> b1") auto
      note f2 = response_fulfilled_result[OF rf]
      from p rq Inr Fulfilled rf f2 have e: "b' = b2" "x = Inr (Inr \<lparr>data = d, status = s\<rparr>)"
        by (simp_all add: pass_def)
      from f2 show ?thesis unfolding e f1[THEN conjunct1] f1[THEN conjunct2, THEN conjunct1]
          f1[THEN conjunct2, THEN conjunct2] c[THEN conjunct1] c[THEN conjunct2, THEN conjunct1]
        by blast
    qed
  qed
qed

lemma pass_error:
  "pass J a cfg b = (Inl err, b', tr) \<Longrightarrow>
     localStorage b' = localStorage b \<and> sessionStorage b' = sessionStorage b
     \<and> userAgent b' = userAgent b
     \<and> (case error_config err of
           None \<Rightarrow> tr = [] \<and> \<not> onLine_request a \<and> \<not> str_includes (url cfg) ''/auth/''
         | Some cfg' \<Rightarrow> tr = [Dispatch cfg'] \<and> run_request J (onLine_request a) (now_request a) cfg b = (Inr cfg', b')
              \<and> (\<exists>c r. adapter a = Rejected c r \<and> err = AxiosError c r cfg'))"
proof -
  assume p: "pass J a cfg b = (Inl err, b', tr)"
  obtain q b1 where rq: "run_request J (onLine_request a) (now_request a) cfg b = (q, b1)"
    by (cases "run_request J (onLine_request a) (now_request a) cfg b") auto
  note f1 = run_request_frame[OF rq]
  show ?thesis
  proof (cases q)
    case (Inl e)
    with p rq have "b' = b1" "err = e" "tr = []" by (simp_all add: pass_def)
    with f1 run_request_error[OF rq[unfolded Inl]] show ?thesis by simp
  next
    case (Inr cfg')
    show ?thesis
    proof (cases "adapter a")
      case (Rejected c r)
      with p rq Inr have "b' = b1" "err = AxiosError c r cfg'" "tr = [Dispatch cfg']"
        by (simp_all add: pass_def)
      with f1 rq Inr Rejected show ?thesis by simp
    next
      case (Fulfilled d s)
      with p rq Inr have False by (simp add: pass_def split: prod.splits sum.splits)
      then show ?thesis ..
    qed
  qed
qed

lemma pass_settled:
  "pass J a cfg b = (Inr res, b', tr) \<Longrightarrow>
     (\<exists>cfg' b1 d s. run_request J (onLine_request a) (now_request a) cfg b = (Inr cfg', b1)
        \<and> adapter a = Fulfilled d s \<and> tr = [Dispatch cfg'] \<and> res = Inr \<lparr>data = d, status = s\<rparr>
        \<and> response_fulfilled J (onLine_response a) (now_response a) cfg' \<lparr>data = d, status = s\<rparr> b1
             = (Inr \<lparr>data = d, status = s\<rparr>, b'))"
proof -
  assume p: "pass J a cfg b = (Inr res, b', tr)"
  obtain q b1 where rq: "run_request J (onLine_request a) (now_request a) cfg b = (q, b1)"
    by (cases "run_request J (onLine_request a) (now_request a) cfg b") auto
  show ?thesis
  proof (cases q)
    case (Inl e)
    with p rq show ?thesis by (simp add: pass_def)
  next
    case (Inr cfg')
    show ?thesis
    proof (cases "adapter a")
      case (Rejected c r)
      with p rq Inr show ?thesis by (simp add: pass_def)
    next
      case (Fulfilled d s)
      obtain y b2 where rf: "response_fulfilled J (onLine_response a) (now_response a) cfg'
                   \<lparr>data = d, status = s\<rparr> b1 = (y, b2)"
        by (cases "response_fulfilled J (onLine_response a) (now_response a) cfg'
                   \<lparr>data = d, status = s\<rparr> b1") auto
      note f2 = response_fulfilled_result[OF rf]
      from p rq Inr Fulfilled rf f2 have e: "b' = b2" "res = Inr \<lparr>data = d, status = s\<rparr>"
         "tr = [Dispatch cfg']"
        by (simp_all add: pass_def)
      with rq Inr Fulfilled rf f2 show ?thesis by simp
    qed
  qed
qed

subsection \<open>A send, attempt by attempt\<close>

text \<open>
  The four ways a send returns: the pass settled it; the pass ended in the offline cache
  error, which the error handler resolves; the error handler rejected; or the error handler
  retried, and the result is that of the send it started.
\<close>

lemma send_cases:
  assumes "send J net k cfg rc b = (res, rc', b', tr)"
  shows "(pass J (net k) cfg b = (Inr res, b', tr) \<and> rc' = rc)
       \<or> (\<exists>r. pass J (net k) cfg b = (Inl (OfflineCached r), b', tr) \<and> res = Inr r \<and> rc' = rc)
       \<or> (\<exists>err. pass J (net k) cfg b = (Inl err, b', tr) \<and> res = Inl err
              \<and> response_rejected err rc = (Reject err, rc'))
       \<or> (\<exists>err b1 tr1 cfg' tr2.
              pass J (net k) cfg b = (Inl err, b1, tr1)
            \<and> response_rejected err rc = (Retry cfg' (retryDelay rc), rc\<lparr>retries := retries rc - 1\<rparr>)
            \<and> send J net (Suc k) cfg' (rc\<lparr>retries := retries rc - 1\<rparr>) b1 = (res, rc', b', tr2)
            \<and> tr = tr1 @ SetTimeout (retryDelay rc) # tr2)"
proof -
  obtain x b1 tr1 where p: "pass J (net k) cfg b = (x, b1, tr1)"
    by (cases "pass J (net k) cfg b") auto
  show ?thesis
  proof (cases x)
    case (Inr settled)
    with assms p show ?thesis by (simp add: send.simps[of J net k])
  next
    case (Inl err)
    obtain v rc1 where rr: "response_rejected err rc = (v, rc1)"
      by (cases "response_rejected err rc") auto
    show ?thesis
    proof (cases v)
      case (Resolve r)
      with assms p Inl rr response_rejected_Resolve[of err rc r rc1] show ?thesis
        by (simp add: send.simps[of J net k])
    next
      case (Reject e)
      with assms p Inl rr response_rejected_Reject[of err rc e rc1] show ?thesis
        by (simp add: send.simps[of J net k])
    next
      case (Retry cfg' d)
      with assms p Inl rr response_rejected_Retry[of err rc cfg' d rc1] show ?thesis
        by (simp add: send.simps[of J net k] split: prod.splits)
    qed
  qed
qed

lemma send_frame:
  "send J net k cfg rc b = (res, rc', b', tr) \<Longrightarrow>
     sessionStorage b' = sessionStorage b \<and> userAgent b' = userAgent b
     \<and> (localStorage b' = localStorage b
        \<or> (http_method cfg = ''get'' \<and>
           (\<exists>s. localStorage b' = (localStorage b)\<lparr>items := (items (localStorage b))(''api-cache-get-'' @ url cfg \<mapsto> s)\<rparr>)))"
proof (induction J net k cfg rc b arbitrary: res rc' b' tr rule: send.induct)
  case (1 J net k cfg rc b)
  from send_cases[OF "1.prems"] show ?case
  proof (elim disjE exE conjE)
    assume "pass J (net k) cfg b = (Inr res, b', tr)"
    from pass_frame[OF this] show ?thesis by blast
  next
    fix r assume "pass J (net k) cfg b = (Inl (OfflineCached r), b', tr)"
    from pass_frame[OF this] show ?thesis by blast
  next
    fix err assume "pass J (net k) cfg b = (Inl err, b', tr)"
    from pass_frame[OF this] show ?thesis by blast
  next
    fix err b1 tr1 cfg' tr2
    assume p: "pass J (net k) cfg b = (Inl err, b1, tr1)"
      and rr: "response_rejected err rc = (Retry cfg' (retryDelay rc), rc\<lparr>retries := retries rc - 1\<rparr>)"
      and s: "send J net (Suc k) cfg' (rc\<lparr>retries := retries rc - 1\<rparr>) b1 = (res, rc', b', tr2)"
    have ih: "sessionStorage b' = sessionStorage b1 \<and> userAgent b' = userAgent b1
     \<and> (localStorage b' = localStorage b1
        \<or> (http_method cfg' = ''get'' \<and>
           (\<exists>s. localStorage b' = (localStorage b1)\<lparr>items := (items (localStorage b1))(''api-cache-get-'' @ url cfg' \<mapsto> s)\<rparr>)))"
      by (rule "1.IH"[OF p[symmetric] refl refl rr[symmetric] refl s])
    from response_rejected_Retry[OF rr] have ec: "error_config err = Some cfg'" by simp
    from pass_error[OF p] ec
    have e: "localStorage b1 = localStorage b" "sessionStorage b1 = sessionStorage b"
      "userAgent b1 = userAgent b"
      "run_request J (onLine_request (net k)) (now_request (net k)) cfg b = (Inr cfg', b1)"
      by simp_all
    from run_request_passes[OF e(4)] have u: "url cfg' = url cfg" "http_method cfg' = http_method cfg"
      by simp_all
    from ih show ?thesis unfolding e(1,2,3) u .
  qed
qed

text \<open>A retry follows a dispatched request that the adapter rejected.\<close>

lemma send_retry_state:
  assumes p: "pass J a cfg b = (Inl err, b1, tr1)"
    and rr: "response_rejected err rc = (Retry cfg' d, rc1)"
  shows "localStorage b1 = localStorage b" "sessionStorage b1 = sessionStorage b"
    "userAgent b1 = userAgent b" "tr1 = [Dispatch cfg']"
    "run_request J (onLine_request a) (now_request a) cfg b = (Inr cfg', b1)"
    "\<exists>c r. adapter a = Rejected c r \<and> err = AxiosError c r cfg'"
proof -
  from response_rejected_Retry[OF rr] have ec: "error_config err = Some cfg'" by simp
  from pass_error[OF p] ec
  show "localStorage b1 = localStorage b" "sessionStorage b1 = sessionStorage b"
    "userAgent b1 = userAgent b" "tr1 = [Dispatch cfg']"
    "run_request J (onLine_request a) (now_request a) cfg b = (Inr cfg', b1)"
    "\<exists>c r. adapter a = Rejected c r \<and> err = AxiosError c r cfg'"
    by simp_all
qed

lemma pass_dispatch:
  assumes p: "pass J a cfg b = (x, b1, tr)" and t: "fst (getAuthToken b) = Inr token"
    and d: "Dispatch c \<in> set tr"
  shows "headers c = attach token cfg \<and> url c = url cfg \<and> http_method c = http_method cfg"
proof -
  obtain q b0 where rq: "run_request J (onLine_request a) (now_request a) cfg b = (q, b0)"
    by (cases "run_request J (onLine_request a) (now_request a) cfg b") auto
  show ?thesis
  proof (cases q)
    case (Inl e)
    with p rq d show ?thesis by (simp add: pass_def)
  next
    case (Inr cfg')
    with p rq d have "c = cfg'"
      by (auto simp: pass_def split: adapter_result.splits prod.splits sum.splits)
    with run_request_passes[OF rq[unfolded Inr]] run_request_headers[OF rq[unfolded Inr] t]
    show ?thesis by (simp add: attach_def)
  qed
qed

lemma attach_idem:
  "headers cfg' = attach token cfg \<Longrightarrow> attach token cfg' = attach token cfg"
  by (auto simp: attach_def)

lemma send_dispatch:
  "send J net k cfg rc b = (res, rc', b', tr) \<Longrightarrow> fst (getAuthToken b) = Inr token \<Longrightarrow>
   Dispatch c \<in> set tr \<Longrightarrow>
     headers c = attach token cfg \<and> url c = url cfg \<and> http_method c = http_method cfg"
proof (induction J net k cfg rc b arbitrary: res rc' b' tr rule: send.induct)
  case (1 J net k cfg rc b)
  note t = "1.prems"(2) and d = "1.prems"(3)
  from send_cases[OF "1.prems"(1)] show ?case
  proof (elim disjE exE conjE)
    assume "pass J (net k) cfg b = (Inr res, b', tr)"
    from pass_dispatch[OF this t d] show ?thesis .
  next
    fix r assume "pass J (net k) cfg b = (Inl (OfflineCached r), b', tr)"
    from pass_dispatch[OF this t d] show ?thesis .
  next
    fix err assume "pass J (net k) cfg b = (Inl err, b', tr)"
    from pass_dispatch[OF this t d] show ?thesis .
  next
    fix err b1 tr1 cfg' tr2
    assume p: "pass J (net k) cfg b = (Inl err, b1, tr1)"
      and rr: "response_rejected err rc = (Retry cfg' (retryDelay rc), rc\<lparr>retries := retries rc - 1\<rparr>)"
      and s: "send J net (Suc k) cfg' (rc\<lparr>retries := retries rc - 1\<rparr>) b1 = (res, rc', b', tr2)"
      and tr: "tr = tr1 @ SetTimeout (retryDelay rc) # tr2"
    note st = send_retry_state[OF p rr]
    have first: "headers cfg' = attach token cfg \<and> url cfg' = url cfg \<and> http_method cfg' = http_method cfg"
      using pass_dispatch[OF p t, of cfg'] st(4) by simp
    have t1: "fst (getAuthToken b1) = Inr token"
      using getAuthToken_depends[of b1 b] st(1,2,3) t by simp
    from d tr st(4) have "c = cfg' \<or> Dispatch c \<in> set tr2" by auto
    then show ?thesis
    proof
      assume "c = cfg'" with first show ?thesis by simp
    next
      assume "Dispatch c \<in> set tr2"
      from "1.IH"[OF p[symmetric] refl refl rr[symmetric] refl s t1 this]
      have "headers c = attach token cfg' \<and> url c = url cfg' \<and> http_method c = http_method cfg'" .
      with first attach_idem[of cfg' token cfg] show ?thesis by simp
    qed
  qed
qed

subsection \<open>The helpers after a change elsewhere in storage\<close>

lemma getUser_depends:
  "blocked (localStorage b') = blocked (localStorage b) \<Longrightarrow>
   items (localStorage b') ''user'' = items (localStorage b) ''user'' \<Longrightarrow>
   sessionStorage b' = sessionStorage b \<Longrightarrow> userAgent b' = userAgent b \<Longrightarrow>
   fst (getUser J b') = fst (getUser J b)"
  by (auto simp: getUser_def isMobile_def js_defs split: if_splits sum.splits prod.splits)


lemma clearAuth_result:
  "clearAuth b = (r, b1) \<Longrightarrow> r = Inr () \<and> fst (getAuthToken b1) = Inr None"
  by (auto simp: clearAuth_def getAuthToken_def isMobile_def js_defs truthy_def split: if_splits sum.splits prod.splits)

lemma getAuthToken_iterate:
  "fst (getAuthToken (((\<lambda>x. snd (getAuthToken x)) ^^ n) b)) = fst (getAuthToken b)
   \<and> localStorage (((\<lambda>x. snd (getAuthToken x)) ^^ n) b) = localStorage b
   \<and> sessionStorage (((\<lambda>x. snd (getAuthToken x)) ^^ n) b) = sessionStorage b
   \<and> userAgent (((\<lambda>x. snd (getAuthToken x)) ^^ n) b) = userAgent b"
proof (induction n)
  case 0
  show ?case by simp
next
  case (Suc n)
  let ?b = "((\<lambda>x. snd (getAuthToken x)) ^^ n) b"
  have "getAuthToken ?b = (fst (getAuthToken ?b), snd (getAuthToken ?b))" by simp
  from getAuthToken_frame[OF this] Suc
  have fr: "localStorage (snd (getAuthToken ?b)) = localStorage b"
    "sessionStorage (snd (getAuthToken ?b)) = sessionStorage b"
    "userAgent (snd (getAuthToken ?b)) = userAgent b" by simp_all
  with getAuthToken_depends[of "snd (getAuthToken ?b)" b] show ?case by simp
qed


subsection \<open>Authentication endpoints\<close>

lemma run_request_auth:
  "str_includes (url cfg) ''/auth/'' \<Longrightarrow>
     \<exists>cfg' b'. run_request J onLine now cfg b = (Inr cfg', b')"
  by (cases "getAuthToken b")
     (auto simp: run_request_def request_fulfilled_def Let_def bind_def return_def
        dest!: getAuthToken_frame split: sum.splits prod.splits)

lemma pass_auth:
  assumes a: "str_includes (url cfg) ''/auth/''" and p: "pass J at cfg b = (x, b', tr)"
  shows "(\<exists>c. tr = [Dispatch c])
       \<and> (case x of Inl e \<Rightarrow> error_config e \<noteq> None
            | Inr res \<Rightarrow> (\<exists>d s. adapter at = Fulfilled d s \<and> res = Inr \<lparr>data = d, status = s\<rparr>))"
proof (cases x)
  case (Inl e)
  from pass_error[OF p[unfolded Inl]] a show ?thesis
    unfolding Inl by (cases "error_config e") auto
next
  case (Inr res)
  from pass_settled[OF p[unfolded Inr]] show ?thesis unfolding Inr by auto
qed

lemma send_auth:
  "send J net k cfg rc b = (res, rc', b', tr) \<Longrightarrow> str_includes (url cfg) ''/auth/'' \<Longrightarrow>
     all_dispatched tr
     \<and> (case res of Inl e \<Rightarrow> error_config e \<noteq> None
          | Inr r \<Rightarrow> (\<exists>j d s. adapter (net j) = Fulfilled d s \<and> r = \<lparr>data = d, status = s\<rparr>))"
proof (induction J net k cfg rc b arbitrary: res rc' b' tr rule: send.induct)
  case (1 J net k cfg rc b)
  note a = "1.prems"(2)
  from send_cases[OF "1.prems"(1)] show ?case
  proof (elim disjE exE conjE)
    assume "pass J (net k) cfg b = (Inr res, b', tr)"
    from pass_auth[OF a this] show ?thesis by auto
  next
    fix r assume "pass J (net k) cfg b = (Inl (OfflineCached r), b', tr)"
    from pass_auth[OF a this] show ?thesis by simp
  next
    fix err assume "pass J (net k) cfg b = (Inl err, b', tr)" "res = Inl err"
    with pass_auth[OF a this(1)] show ?thesis by auto
  next
    fix err b1 tr1 cfg' tr2
    assume p: "pass J (net k) cfg b = (Inl err, b1, tr1)"
      and rr: "response_rejected err rc = (Retry cfg' (retryDelay rc), rc\<lparr>retries := retries rc - 1\<rparr>)"
      and s: "send J net (Suc k) cfg' (rc\<lparr>retries := retries rc - 1\<rparr>) b1 = (res, rc', b', tr2)"
      and tr: "tr = tr1 @ SetTimeout (retryDelay rc) # tr2"
    note st = send_retry_state[OF p rr]
    from run_request_passes[OF st(5)] a have a': "str_includes (url cfg') ''/auth/''" by simp
    from "1.IH"[OF p[symmetric] refl refl rr[symmetric] refl s a'] tr st(4)
    show ?thesis by simp
  qed
qed


lemma send_first_fulfilled:
  assumes on: "onLine_request (net k) \<or> str_includes (url cfg) ''/auth/''"
    and ok: "adapter (net k) = Fulfilled d s"
  shows "fst (send J net k cfg rc b) = Inr \<lparr>data = d, status = s\<rparr>"
proof -
  obtain x b1 tr where p: "pass J (net k) cfg b = (x, b1, tr)"
    by (cases "pass J (net k) cfg b") auto
  show ?thesis
  proof (cases x)
    case (Inl e)
    from pass_error[OF p[unfolded Inl]] on ok show ?thesis
      by (cases "error_config e") auto
  next
    case (Inr res)
    from pass_settled[OF p[unfolded Inr]] ok p Inr show ?thesis
      by (auto simp: send.simps[of J net k])
  qed
qed


subsection \<open>The attempt that settles a send, and the offline branch\<close>

lemma pass_trace:
  "pass J a cfg b = (x, b', tr) \<Longrightarrow> tr = [] \<or> (\<exists>c. tr = [Dispatch c])"
  by (auto simp: pass_def split: prod.splits sum.splits adapter_result.splits)

lemma pass_delays: "pass J a cfg b = (x, b', tr) \<Longrightarrow> delays tr = []"
  using pass_trace[of J a cfg b x b' tr] by auto

lemma send_final_pass:
  "send J net k cfg rc b = (res, rc', b', tr) \<Longrightarrow>
     \<exists>cfg0 b0 x tr0. pass J (net (k + length (delays tr))) cfg0 b0 = (x, b', tr0)
        \<and> url cfg0 = url cfg \<and> http_method cfg0 = http_method cfg
        \<and> localStorage b0 = localStorage b \<and> sessionStorage b0 = sessionStorage b
        \<and> userAgent b0 = userAgent b
        \<and> (x = Inr res \<or> (\<exists>r. x = Inl (OfflineCached r) \<and> res = Inr r)
             \<or> (\<exists>e. x = Inl e \<and> res = Inl e))"
proof (induction J net k cfg rc b arbitrary: res rc' b' tr rule: send.induct)
  case (1 J net k cfg rc b)
  from send_cases[OF "1.prems"(1)] show ?case
  proof (elim disjE exE conjE)
    assume p: "pass J (net k) cfg b = (Inr res, b', tr)"
    from pass_delays[OF p] p show ?thesis by fastforce
  next
    fix r assume p: "pass J (net k) cfg b = (Inl (OfflineCached r), b', tr)" and "res = Inr r"
    with pass_delays[OF p] show ?thesis by fastforce
  next
    fix err assume p: "pass J (net k) cfg b = (Inl err, b', tr)" and "res = Inl err"
    with pass_delays[OF p] show ?thesis by fastforce
  next
    fix err b1 tr1 cfg' tr2
    assume p: "pass J (net k) cfg b = (Inl err, b1, tr1)"
      and rr: "response_rejected err rc = (Retry cfg' (retryDelay rc), rc\<lparr>retries := retries rc - 1\<rparr>)"
      and s: "send J net (Suc k) cfg' (rc\<lparr>retries := retries rc - 1\<rparr>) b1 = (res, rc', b', tr2)"
      and tr: "tr = tr1 @ SetTimeout (retryDelay rc) # tr2"
    note st = send_retry_state[OF p rr]
    note u = run_request_passes[OF st(5)]
    from tr st(4) have n: "k + length (delays tr) = Suc k + length (delays tr2)" by simp
    from "1.IH"[OF p[symmetric] refl refl rr[symmetric] refl s]
    show ?thesis unfolding n st(1,2,3) u[THEN conjunct1] u[THEN conjunct2, THEN conjunct1] .
  qed
qed

lemma pass_fulfilled_get:
  assumes get: "http_method cfg = ''get''"
    and on1: "onLine_request a \<or> str_includes (url cfg) ''/auth/''"
    and on2: "onLine_response a" and ok: "adapter a = Fulfilled d s"
    and st: "\<not> blocked (localStorage b)" "\<not> full (localStorage b)"
    and ser: "stringify_entry J d (now_response a) = Inr cached"
  shows "\<exists>b' c. pass J a cfg b = (Inr (Inr \<lparr>data = d, status = s\<rparr>), b', [Dispatch c])
           \<and> items (localStorage b') (''api-cache-get-'' @ url cfg) = Some cached"
proof -
  obtain q b1 where rq: "run_request J (onLine_request a) (now_request a) cfg b = (q, b1)"
    by (cases "run_request J (onLine_request a) (now_request a) cfg b") auto
  note f1 = run_request_frame[OF rq]
  show ?thesis
  proof (cases q)
    case (Inl e)
    from run_request_error[OF rq[unfolded Inl]] on1 show ?thesis by simp
  next
    case (Inr cfg')
    note c = run_request_passes[OF rq[unfolded Inr]]
    have "response_fulfilled J (onLine_response a) (now_response a) cfg' \<lparr>data = d, status = s\<rparr> b1
        = (Inr \<lparr>data = d, status = s\<rparr>,
           b1\<lparr>localStorage := (localStorage b1)\<lparr>items := (items (localStorage b1))(''api-cache-get-'' @ url cfg \<mapsto> cached)\<rparr>\<rparr>)"
      using get on2 st ser f1 c
      by (simp add: response_fulfilled_def Let_def js_defs)
    with rq Inr ok show ?thesis by (simp add: pass_def)
  qed
qed

lemma request_offline_cached:
  assumes off: "\<not> onLine" and path: "\<not> str_includes (url cfg) ''/auth/''"
    and rd: "\<not> blocked (localStorage b)"
    and entry: "items (localStorage b) (''api-cache-'' @ http_method cfg @ ''-'' @ url cfg) = Some cached"
    and ne: "cached \<noteq> []"
    and par: "parse_entry J cached = Inr (Obj d (Some t))"
    and within: "now - t < 24 * 60 * 60 * 1000"
  shows "\<exists>b'. run_request J onLine now cfg b = (Inl (OfflineCached \<lparr>data = d, status = 200\<rparr>), b')"
proof -
  obtain tok b1 where g: "getAuthToken b = (Inr tok, b1)"
    using getAuthToken_frame[of b "fst (getAuthToken b)" "snd (getAuthToken b)"]
    by (cases "getAuthToken b") auto
  from getAuthToken_frame[OF g] have "localStorage b1 = localStorage b" by simp
  with g off path rd entry ne par within show ?thesis
    by (simp add: run_request_def request_fulfilled_def Let_def bind_def return_def lift_def
        localStorage_getItem_def getItem_def truthy_def fresh_def)
qed

lemma request_offline_no_cache:
  assumes off: "\<not> onLine" and path: "\<not> str_includes (url cfg) ''/auth/''"
    and rd: "\<not> blocked (localStorage b)"
    and entry: "items (localStorage b) (''api-cache-'' @ http_method cfg @ ''-'' @ url cfg) = None
        \<or> (\<exists>cached d t. items (localStorage b) (''api-cache-'' @ http_method cfg @ ''-'' @ url cfg) = Some cached
              \<and> parse_entry J cached = Inr (Obj d (Some t)) \<and> 24 * 60 * 60 * 1000 \<le> now - t)"
  shows "\<exists>b'. run_request J onLine now cfg b = (Inl OfflineNoCache, b')"
proof -
  obtain tok b1 where g: "getAuthToken b = (Inr tok, b1)"
    using getAuthToken_frame[of b "fst (getAuthToken b)" "snd (getAuthToken b)"]
    by (cases "getAuthToken b") auto
  from getAuthToken_frame[OF g] have "localStorage b1 = localStorage b" by simp
  with g off path rd entry show ?thesis
    by (auto simp: run_request_def request_fulfilled_def Let_def bind_def return_def lift_def
        localStorage_getItem_def getItem_def truthy_def fresh_def)
qed

lemma send_intercepted:
  assumes r: "run_request J (onLine_request (net k)) (now_request (net k)) cfg b = (Inl e, b')"
  shows "send J net k cfg rc b =
           (case e of OfflineCached r \<Rightarrow> Inr r | _ \<Rightarrow> Inl e, rc, b', [])"
proof -
  from r have p: "pass J (net k) cfg b = (Inl e, b', [])" by (simp add: pass_def)
  from run_request_error[OF r] have "error_config e = None" by simp
  with p show ?thesis
    by (cases e) (simp_all add: send.simps[of J net k] response_rejected_def)
qed

lemma offline_without_cache_fails:
  assumes off: "\<not> onLine_request (net k)" and path: "\<not> str_includes (url cfg) ''/auth/''"
    and rd: "\<not> blocked (localStorage b)"
    and entry: "items (localStorage b) (''api-cache-'' @ http_method cfg @ ''-'' @ url cfg) = None
        \<or> (\<exists>cached d t. items (localStorage b) (''api-cache-'' @ http_method cfg @ ''-'' @ url cfg) = Some cached
              \<and> parse_entry J cached = Inr (Obj d (Some t))
              \<and> 24 * 60 * 60 * 1000 \<le> now_request (net k) - t)"
  shows "\<exists>b'. send J net k cfg rc b = (Inl OfflineNoCache, rc, b', [])"
proof -
  from request_offline_no_cache[OF off path rd entry]
  obtain b' where "run_request J (onLine_request (net k)) (now_request (net k)) cfg b = (Inl OfflineNoCache, b')"
    by blast
  from send_intercepted[of J net k cfg b OfflineNoCache b' rc, OF this] show ?thesis by simp
qed


subsection \<open>Retries\<close>

text \<open>
  When every attempt is dispatched and rejected with an error that satisfies
  \<open>retryCondition\<close>, a send that starts with the counter at \<open>n\<close> makes \<open>n + 1\<close> attempts,
  \<open>n\<close> delays of \<open>retryDelay\<close> between them, and leaves the counter at 0.
\<close>

lemma send_all_transient:
  "\<forall>j. \<exists>c r. adapter (net j) = Rejected c r \<and> (\<forall>cfg'. retryCondition (AxiosError c r cfg')) \<Longrightarrow>
   \<forall>j. onLine_request (net j) \<Longrightarrow>
   send J net k cfg rc b = (res, rc', b', tr) \<Longrightarrow>
     length (dispatched tr) = retries rc + 1
     \<and> delays tr = replicate (retries rc) (retryDelay rc)
     \<and> all_dispatched tr \<and> retries rc' = 0
     \<and> (\<exists>e. res = Inl e \<and> retryCondition e)"
proof (induction J net k cfg rc b arbitrary: res rc' b' tr rule: send.induct)
  case (1 J net k cfg rc b)
  note fail = "1.prems"(1) and on = "1.prems"(2)
  from fail obtain c r where ad: "adapter (net k) = Rejected c r"
    and tc: "\<forall>cfg'. retryCondition (AxiosError c r cfg')" by blast
  from on have onk: "onLine_request (net k)" by blast
  have err: "error_config err \<noteq> None \<and> retryCondition err
             \<and> tr1 = [Dispatch (the (error_config err))]
             \<and> retry (the (error_config err)) = Some RetryConfig"
    if p: "pass J (net k) cfg b = (Inl err, b1, tr1)" for err b1 tr1
  proof (cases "error_config err")
    case None
    with pass_error[OF p] onk show ?thesis by simp
  next
    case (Some cfg')
    with pass_error[OF p] ad tc run_request_passes[of J "onLine_request (net k)" "now_request (net k)" cfg b cfg' b1]
    show ?thesis by auto
  qed
  from send_cases[OF "1.prems"(3)] show ?case
  proof (elim disjE exE conjE)
    assume "pass J (net k) cfg b = (Inr res, b', tr)"
    from pass_settled[OF this] ad show ?thesis by auto
  next
    fix r' assume "pass J (net k) cfg b = (Inl (OfflineCached r'), b', tr)"
    from err[OF this] show ?thesis by simp
  next
    fix e assume p: "pass J (net k) cfg b = (Inl e, b', tr)" and res: "res = Inl e"
      and rr: "response_rejected e rc = (Reject e, rc')"
    from err[OF p] response_rejected_Reject[OF rr] have "retries rc = 0" "rc' = rc" by auto
    with err[OF p] res show ?thesis by simp
  next
    fix e b1 tr1 cfg' tr2
    assume p: "pass J (net k) cfg b = (Inl e, b1, tr1)"
      and rr: "response_rejected e rc = (Retry cfg' (retryDelay rc), rc\<lparr>retries := retries rc - 1\<rparr>)"
      and s: "send J net (Suc k) cfg' (rc\<lparr>retries := retries rc - 1\<rparr>) b1 = (res, rc', b', tr2)"
      and tr: "tr = tr1 @ SetTimeout (retryDelay rc) # tr2"
    note st = send_retry_state[OF p rr]
    from response_rejected_Retry[OF rr] have pos: "0 < retries rc" by simp
    from "1.IH"[OF p[symmetric] refl refl rr[symmetric] refl fail on s]
    have ih: "length (dispatched tr2) = retries rc - 1 + 1"
      "delays tr2 = replicate (retries rc - 1) (retryDelay rc)"
      "all_dispatched tr2" "retries rc' = 0" "\<exists>e. res = Inl e \<and> retryCondition e"
      by simp_all
    from pos have "replicate (retries rc) (retryDelay rc)
        = retryDelay rc # replicate (retries rc - 1) (retryDelay rc)"
      by (cases "retries rc") simp_all
    with ih pos tr st(4) show ?thesis by simp
  qed
qed

subsection \<open>Unfolding the model on concrete inputs\<close>

lemmas obs_defs = result_of_def counter_of_def browser_of_def events_of_def

lemmas model_defs = obs_defs js_defs isMobile_def lower_def truthy_def fresh_def
  setAuthToken_def getAuthToken_def isAuthenticated_def clearAuth_def setUser_def getUser_def
  request_fulfilled_def run_request_def response_fulfilled_def response_rejected_def
  retryCondition_def retryConfig_def pass_def send.simps Let_def
  example_json_def example_browser_def example_online_def example_offline_def
  example_failing_def example_request_def example_mobile_def

section \<open>The claims\<close>

text \<open>
  Claim C1 (as amended). The claim as stated fails for a path that contains \<^verbatim>\<open>/auth/\<close>
  (the request interceptor never serves such a request from the cache) and when the cache
  write did not happen; the counterexample is further below. What holds: take a \<^verbatim>\<open>get\<close>
  request to a path without \<^verbatim>\<open>/auth/\<close> whose settling attempt (the first one or a retry)
  was dispatched and fulfilled while \<^verbatim>\<open>navigator.onLine\<close> was true, with \<^verbatim>\<open>localStorage\<close>
  neither blocked nor full and the entry \<^verbatim>\<open>{data, timestamp}\<close> surviving
  \<^verbatim>\<open>JSON.stringify\<close>/\<^verbatim>\<open>JSON.parse\<close>. Then in any later state in which the entry under
  \<^verbatim>\<open>api-cache-get-<url>\<close> is still that one and \<^verbatim>\<open>localStorage\<close> is readable, a \<^verbatim>\<open>get\<close> to the
  same path, issued offline less than 24 hours after the write, resolves with the cached
  payload and status 200, dispatches nothing and leaves the retry counter alone.
\<close>
theorem cached_get_served_offline:
  assumes get: "http_method cfg = ''get''" and path: "\<not> str_includes (url cfg) ''/auth/''"
    and first: "send J net k cfg rc b = (res, rc1, b1, tr)"
    and last: "a = net (k + length (delays tr))"
    and on1: "onLine_request a" and on2: "onLine_response a" and ok: "adapter a = Fulfilled d s"
    and st: "\<not> blocked (localStorage b)" "\<not> full (localStorage b)"
    and ser: "stringify_entry J d (now_response a) = Inr cached" "cached \<noteq> []"
    and par: "parse_entry J cached = Inr (Obj d (Some (now_response a)))"
    and kept: "items (localStorage b2) (''api-cache-get-'' @ url cfg)
                 = items (localStorage b1) (''api-cache-get-'' @ url cfg)"
    and rd: "\<not> blocked (localStorage b2)"
    and cfg2: "http_method cfg2 = ''get''" "url cfg2 = url cfg"
    and off: "\<not> onLine_request (net2 k2)"
    and within: "now_request (net2 k2) - now_response a < 24 * 60 * 60 * 1000"
  shows "res = Inr \<lparr>data = d, status = s\<rparr>
       \<and> (\<exists>b3. send J net2 k2 cfg2 rc2 b2 = (Inr \<lparr>data = d, status = 200\<rparr>, rc2, b3, []))"
proof -
  from send_final_pass[OF first] last
  obtain cfg0 b0 x tr0 where p: "pass J a cfg0 b0 = (x, b1, tr0)"
    and u: "url cfg0 = url cfg" "http_method cfg0 = http_method cfg"
    and l: "localStorage b0 = localStorage b"
    and x: "x = Inr res \<or> (\<exists>r. x = Inl (OfflineCached r) \<and> res = Inr r) \<or> (\<exists>e. x = Inl e \<and> res = Inl e)"
    by blast
  from pass_fulfilled_get[of cfg0 a d s b0 J cached] get on1 on2 ok st ser(1) u l
  obtain b' c where p': "pass J a cfg0 b0 = (Inr (Inr \<lparr>data = d, status = s\<rparr>), b', [Dispatch c])"
    and w: "items (localStorage b') (''api-cache-get-'' @ url cfg) = Some cached"
    by auto
  from p p' x have res: "res = Inr \<lparr>data = d, status = s\<rparr>" and b1: "b1 = b'" by auto
  from kept w b1 cfg2
  have e: "items (localStorage b2) (''api-cache-'' @ http_method cfg2 @ ''-'' @ url cfg2) = Some cached"
    by simp
  from path cfg2 have path2: "\<not> str_includes (url cfg2) ''/auth/''" by simp
  from request_offline_cached[OF off path2 rd e ser(2) par within]
  obtain b3 where "run_request J (onLine_request (net2 k2)) (now_request (net2 k2)) cfg2 b2
      = (Inl (OfflineCached \<lparr>data = d, status = 200\<rparr>), b3)" by blast
  from send_intercepted[of J net2 k2 cfg2 b2 "OfflineCached \<lparr>data = d, status = 200\<rparr>" b3 rc2, OF this] res
  show ?thesis by simp
qed

text \<open>The dashboard request of the specification: fetched online at time 1000, repeated offline at time 2000.\<close>

theorem cached_get_served_offline_witness:
  "http_method (example_request ''get'' ''/dashboard/stats'') = ''get''
   \<and> \<not> str_includes (url (example_request ''get'' ''/dashboard/stats'')) ''/auth/''
   \<and> adapter (example_online 0) = Fulfilled 5 200
   \<and> \<not> onLine_request (example_offline 0)
   \<and> now_request (example_offline 0) - now_response (example_online 0) < 24 * 60 * 60 * 1000
   \<and> result_of (send example_json example_online 0 (example_request ''get'' ''/dashboard/stats'')
            retryConfig example_browser) = Inr \<lparr>data = 5, status = 200\<rparr>
   \<and> result_of (send example_json example_offline 0 (example_request ''get'' ''/dashboard/stats'')
            retryConfig
            (browser_of (send example_json example_online 0
               (example_request ''get'' ''/dashboard/stats'') retryConfig example_browser)))
       = Inr \<lparr>data = 5, status = 200\<rparr>
   \<and> events_of (send example_json example_offline 0 (example_request ''get'' ''/dashboard/stats'')
            retryConfig
            (browser_of (send example_json example_online 0
               (example_request ''get'' ''/dashboard/stats'') retryConfig example_browser)))
       = []"
proof -
  let ?cfg = "example_request ''get'' ''/dashboard/stats''"
  let ?s = "send example_json example_online 0 ?cfg retryConfig example_browser"
  let ?a = "example_online (0 + length (delays (snd (snd (snd ?s)))))"
  have e: "?s = (fst ?s, fst (snd ?s), fst (snd (snd ?s)), snd (snd (snd ?s)))" by simp
  have h: "http_method ?cfg = ''get''" "\<not> str_includes (url ?cfg) ''/auth/''"
    "onLine_request ?a" "onLine_response ?a" "adapter ?a = Fulfilled 5 200"
    "\<not> blocked (localStorage example_browser)" "\<not> full (localStorage example_browser)"
    "stringify_entry example_json 5 (now_response ?a) = Inr ''{data:{code_submissions:5},timestamp:1000}''"
    "''{data:{code_submissions:5},timestamp:1000}'' \<noteq> []"
    "parse_entry example_json ''{data:{code_submissions:5},timestamp:1000}''
       = Inr (Obj 5 (Some (now_response ?a)))"
    "\<not> blocked (localStorage (fst (snd (snd ?s))))"
    by (simp_all add: model_defs)
  have o: "\<not> onLine_request (example_offline 0)"
    "now_request (example_offline 0) - now_response ?a < 24 * 60 * 60 * 1000"
    "adapter (example_online 0) = Fulfilled 5 200"
    "now_request (example_offline 0) - now_response (example_online 0) < 24 * 60 * 60 * 1000"
    by (simp_all add: example_offline_def example_online_def)
  note T = cached_get_served_offline[of ?cfg example_json example_online 0 retryConfig
      example_browser "fst ?s" "fst (snd ?s)" "fst (snd (snd ?s))" "snd (snd (snd ?s))" ?a 5 200
      "''{data:{code_submissions:5},timestamp:1000}''" "fst (snd (snd ?s))" ?cfg
      example_offline 0 retryConfig]
  from T[OF h(1,2) e refl h(3,4,5,6,7,8,9,10) refl h(11) h(1) refl o(1,2)]
  obtain b3 where "fst ?s = Inr \<lparr>data = 5, status = 200\<rparr>"
    "send example_json example_offline 0 ?cfg retryConfig (fst (snd (snd ?s)))
       = (Inr \<lparr>data = 5, status = 200\<rparr>, retryConfig, b3, [])"
    by blast
  with h(1,2) o show ?thesis by (simp add: obs_defs)
qed

text \<open>
  The counterexample to C1 as stated: \<^verbatim>\<open>GET /auth/me\<close> succeeds online and its response is
  cached; the same request one second later, offline, is dispatched and fails with the
  adapter's network error instead of returning the cached payload.
\<close>

theorem auth_get_not_served_from_cache:
  "http_method (example_request ''get'' ''/auth/me'') = ''get''
   \<and> result_of (send example_json example_online 0 (example_request ''get'' ''/auth/me'')
            retryConfig example_browser) = Inr \<lparr>data = 5, status = 200\<rparr>
   \<and> items (localStorage (browser_of (send example_json example_online 0
          (example_request ''get'' ''/auth/me'') retryConfig example_browser)))
        ''api-cache-get-/auth/me'' = Some ''{data:{code_submissions:5},timestamp:1000}''
   \<and> \<not> onLine_request (example_offline 0)
   \<and> now_request (example_offline 0) - now_response (example_online 0) < 24 * 60 * 60 * 1000
   \<and> result_of (send example_json example_offline 0 (example_request ''get'' ''/auth/me'')
            retryConfig
            (browser_of (send example_json example_online 0
               (example_request ''get'' ''/auth/me'') retryConfig example_browser)))
       \<noteq> Inr \<lparr>data = 5, status = 200\<rparr>
   \<and> length (dispatched (events_of (send example_json example_offline 0
            (example_request ''get'' ''/auth/me'') retryConfig
            (browser_of (send example_json example_online 0
               (example_request ''get'' ''/auth/me'') retryConfig example_browser)))))
       = 1"
  by (simp add: model_defs)

text \<open>
  Claim C2 (the code departs from it). Every configuration holds a reference to the one
  \<open>retryConfig\<close> object, so the counter is shared by all requests of the client and never
  reset. On a fresh client, a request whose every attempt gets status 503 is dispatched
  4 times with three delays of 1000 ms, which leaves the counter at 0; the next request
  that fails the same way is dispatched once and never retried. (The lemma
  \<open>send_all_transient\<close> gives the general count: \<open>retries + 1\<close> attempts.)
\<close>
theorem retry_budget_is_shared:
  "length (dispatched (events_of (send example_json example_failing 0
       (example_request ''get'' ''/dashboard/stats'') retryConfig example_browser))) = 4
   \<and> delays (events_of (send example_json example_failing 0
       (example_request ''get'' ''/dashboard/stats'') retryConfig example_browser))
        = [1000, 1000, 1000]
   \<and> retries (counter_of (send example_json example_failing 0
       (example_request ''get'' ''/dashboard/stats'') retryConfig example_browser)) = 0
   \<and> length (dispatched (events_of (send example_json example_failing 0
       (example_request ''get'' ''/interview/start'')
       (counter_of (send example_json example_failing 0
          (example_request ''get'' ''/dashboard/stats'') retryConfig example_browser))
       (browser_of (send example_json example_failing 0
          (example_request ''get'' ''/dashboard/stats'') retryConfig example_browser))))) = 1
   \<and> delays (events_of (send example_json example_failing 0
       (example_request ''get'' ''/interview/start'')
       (counter_of (send example_json example_failing 0
          (example_request ''get'' ''/dashboard/stats'') retryConfig example_browser))
       (browser_of (send example_json example_failing 0
          (example_request ''get'' ''/dashboard/stats'') retryConfig example_browser)))) = []"
  by (simp add: model_defs)

text \<open>
  Claim C3 (as amended). The exception the claim makes for authentication endpoints does not
  exist in the interceptor: the counterexample is further below. What holds: whenever
  \<^verbatim>\<open>getAuthToken()\<close> returns a non-empty token \<open>t\<close>, every request a send dispatches (first
  attempt and retries, authentication endpoint or not) carries the header
  \<^verbatim>\<open>Authorization: Bearer t\<close>.
\<close>
theorem token_attached_to_every_dispatch:
  assumes t: "fst (getAuthToken b) = Inr (Some t)" and ne: "t \<noteq> []"
    and s: "send J net k cfg rc b = (res, rc', b', tr)" and d: "Dispatch c \<in> set tr"
  shows "headers c ''Authorization'' = Some (''Bearer '' @ t)"
  using send_dispatch[OF s t d] ne by (simp add: attach_def truthy_def)

text \<open>Four attempts of the dashboard request, each with the stored token attached.\<close>

theorem token_attached_to_every_dispatch_witness:
  "fst (getAuthToken example_browser) = Inr (Some ''abc'') \<and> ''abc'' \<noteq> []
   \<and> length (dispatched (events_of (send example_json example_failing 0
           (example_request ''get'' ''/dashboard/stats'') retryConfig example_browser))) = 4
   \<and> Dispatch (last (dispatched (events_of (send example_json example_failing 0
           (example_request ''get'' ''/dashboard/stats'') retryConfig example_browser))))
        \<in> set (events_of (send example_json example_failing 0
           (example_request ''get'' ''/dashboard/stats'') retryConfig example_browser))
   \<and> headers (last (dispatched (events_of (send example_json example_failing 0
           (example_request ''get'' ''/dashboard/stats'') retryConfig example_browser))))
         ''Authorization'' = Some ''Bearer abc''"
proof -
  let ?s = "send example_json example_failing 0 (example_request ''get'' ''/dashboard/stats'')
              retryConfig example_browser"
  have e: "?s = (fst ?s, fst (snd ?s), fst (snd (snd ?s)), snd (snd (snd ?s)))" by simp
  have t: "fst (getAuthToken example_browser) = Inr (Some ''abc'')" by (simp add: model_defs)
  have ne: "''abc'' \<noteq> []" by simp
  have n: "length (dispatched (snd (snd (snd ?s)))) = 4" by (simp add: model_defs)
  have d: "Dispatch (last (dispatched (snd (snd (snd ?s))))) \<in> set (snd (snd (snd ?s)))"
    by (simp add: model_defs)
  from token_attached_to_every_dispatch[OF t ne e d] t ne n d show ?thesis by (simp add: obs_defs)
qed

text \<open>
  The counterexample to C3 as stated: with the token \<^verbatim>\<open>abc\<close> stored, \<^verbatim>\<open>GET /auth/me\<close> sent
  through the client is dispatched with \<^verbatim>\<open>Authorization: Bearer abc\<close>.
\<close>

theorem auth_requests_carry_the_token:
  "str_includes ''/auth/me'' ''/auth/''
   \<and> fst (getAuthToken example_browser) = Inr (Some ''abc'')
   \<and> map (\<lambda>c. (url c, headers c ''Authorization''))
        (dispatched (events_of (send example_json example_online 0
           (example_request ''get'' ''/auth/me'') retryConfig example_browser)))
      = [(''/auth/me'', Some ''Bearer abc'')]"
  by (simp add: model_defs)



text \<open>
  Claim C4 (the code departs from it). The read of the cache entry in the request
  interceptor is the one storage access of the two files that is outside a \<^verbatim>\<open>try\<close>. With
  storage disabled for the page, an offline \<^verbatim>\<open>get\<close> to a path without \<^verbatim>\<open>/auth/\<close>, for which
  no cache entry exists, is rejected with the storage exception, not with the
  offline-no-cache error; nothing is dispatched. (With readable storage the claim holds:
  lemma \<open>offline_without_cache_fails\<close>.)
\<close>
theorem offline_read_unguarded:
  "\<not> onLine_request (example_offline 0)
   \<and> \<not> str_includes (url (example_request ''get'' ''/dashboard/stats'')) ''/auth/''
   \<and> items (localStorage example_blocked) ''api-cache-get-/dashboard/stats'' = None
   \<and> send example_json example_offline 0 (example_request ''get'' ''/dashboard/stats'')
        retryConfig example_blocked
      = (Inl (Exception SecurityError), retryConfig,
         example_blocked\<lparr>console := [''Storage not available:'']\<rparr>, [])"
  by (simp add: model_defs example_blocked_def)

text \<open>
  Claim C5. For a request whose path contains \<^verbatim>\<open>/auth/\<close>, whatever \<^verbatim>\<open>navigator.onLine\<close>
  says: the request interceptor hands the configuration on to the adapter with its path
  unchanged, every attempt of a send is dispatched, and the send settles with what the
  adapter produced (a response the adapter fulfilled, or the adapter's error), never with a
  cached response or the offline error.
\<close>
theorem auth_endpoint_never_intercepted:
  assumes a: "str_includes (url cfg) ''/auth/''"
  shows "(\<exists>cfg' b1. run_request J onLine now cfg b = (Inr cfg', b1) \<and> url cfg' = url cfg)
       \<and> (send J net k cfg rc b = (res, rc', b', tr) \<longrightarrow>
            all_dispatched tr
            \<and> (case res of Inl e \<Rightarrow> error_config e \<noteq> None
                 | Inr r \<Rightarrow> (\<exists>j d s. adapter (net j) = Fulfilled d s \<and> r = \<lparr>data = d, status = s\<rparr>)))"
proof -
  from run_request_auth[OF a, of J onLine now b]
  obtain cfg' b1 where r: "run_request J onLine now cfg b = (Inr cfg', b1)" by blast
  from run_request_passes[OF r] r
  have "\<exists>cfg' b1. run_request J onLine now cfg b = (Inr cfg', b1) \<and> url cfg' = url cfg" by blast
  with send_auth[OF _ a] show ?thesis by blast
qed

text \<open>\<^verbatim>\<open>GET /auth/me\<close> while offline: dispatched once.\<close>

theorem auth_endpoint_never_intercepted_witness:
  "str_includes (url (example_request ''get'' ''/auth/me'')) ''/auth/''
   \<and> \<not> onLine_request (example_offline 0)
   \<and> (\<exists>cfg' b1. run_request example_json (onLine_request (example_offline 0))
          (now_request (example_offline 0)) (example_request ''get'' ''/auth/me'') example_browser
            = (Inr cfg', b1) \<and> url cfg' = url (example_request ''get'' ''/auth/me''))
   \<and> all_dispatched (events_of (send example_json example_offline 0
          (example_request ''get'' ''/auth/me'') retryConfig example_browser))
   \<and> length (dispatched (events_of (send example_json example_offline 0
          (example_request ''get'' ''/auth/me'') retryConfig example_browser))) = 1"
proof -
  let ?s = "send example_json example_offline 0 (example_request ''get'' ''/auth/me'')
              retryConfig example_browser"
  have h: "str_includes (url (example_request ''get'' ''/auth/me'')) ''/auth/''"
    by (simp add: example_request_def)
  have off: "\<not> onLine_request (example_offline 0)" by (simp add: example_offline_def)
  have e: "?s = (fst ?s, fst (snd ?s), fst (snd (snd ?s)), snd (snd (snd ?s)))" by simp
  have n: "length (dispatched (snd (snd (snd ?s)))) = 1" by (simp add: model_defs)
  from auth_endpoint_never_intercepted[OF h, of example_json "onLine_request (example_offline 0)"
      "now_request (example_offline 0)" example_browser example_offline 0 retryConfig
      "fst ?s" "fst (snd ?s)" "fst (snd (snd ?s))" "snd (snd (snd ?s))"] e h off n
  show ?thesis unfolding obs_defs by blast
qed


text \<open>
  Claim C6. A send whose method is not \<^verbatim>\<open>get\<close> leaves both storage areas exactly as they
  were: whatever the connectivity, the outcome and the number of retries.
\<close>
theorem non_get_writes_nothing:
  "http_method cfg \<noteq> ''get'' \<Longrightarrow> send J net k cfg rc b = (res, rc', b', tr) \<Longrightarrow>
     localStorage b' = localStorage b \<and> sessionStorage b' = sessionStorage b"
  using send_frame[of J net k cfg rc b res rc' b' tr] by blast

text \<open>A \<^verbatim>\<open>post\<close> that succeeds online.\<close>

theorem non_get_writes_nothing_witness:
  "http_method (example_request ''post'' ''/tutor/chat'') \<noteq> ''get''
   \<and> result_of (send example_json example_online 0 (example_request ''post'' ''/tutor/chat'')
             retryConfig example_browser) = Inr \<lparr>data = 5, status = 200\<rparr>
   \<and> localStorage (browser_of (send example_json example_online 0
          (example_request ''post'' ''/tutor/chat'') retryConfig example_browser))
       = localStorage example_browser
   \<and> sessionStorage (browser_of (send example_json example_online 0
          (example_request ''post'' ''/tutor/chat'') retryConfig example_browser))
       = sessionStorage example_browser"
proof -
  let ?s = "send example_json example_online 0 (example_request ''post'' ''/tutor/chat'')
              retryConfig example_browser"
  have h: "http_method (example_request ''post'' ''/tutor/chat'') \<noteq> ''get''"
    by (simp add: example_request_def)
  have e: "?s = (fst ?s, fst (snd ?s), fst (snd (snd ?s)), snd (snd (snd ?s)))" by simp
  have v: "fst ?s = Inr \<lparr>data = 5, status = 200\<rparr>" by (simp add: model_defs)
  from non_get_writes_nothing[OF h e] h v show ?thesis by (simp add: obs_defs)
qed


text \<open>
  Claim C7 (as amended). The request interceptor only ever sets the \<^verbatim>\<open>Authorization\<close>
  header, it never removes one, so the claim as stated fails for a configuration that
  already carries the header: the counterexample is further below. What holds: after
  \<^verbatim>\<open>clearAuth()\<close>, which itself never throws, every later call of \<^verbatim>\<open>getAuthToken()\<close> returns
  \<^verbatim>\<open>null\<close> (\<open>n\<close> calls in a row, for every \<open>n\<close>), and a request sent afterwards whose
  configuration has no \<^verbatim>\<open>Authorization\<close> header of its own is dispatched without one, on
  every attempt.
\<close>
theorem clearAuth_then_no_token:
  assumes c: "clearAuth b = (r, b1)"
  shows "r = Inr ()
       \<and> fst (getAuthToken (((\<lambda>x. snd (getAuthToken x)) ^^ n) b1)) = Inr None
       \<and> (headers cfg ''Authorization'' = None
            \<and> send J net k cfg rc (((\<lambda>x. snd (getAuthToken x)) ^^ n) b1) = (res, rc', b2, tr)
            \<and> Dispatch c \<in> set tr
          \<longrightarrow> headers c ''Authorization'' = None)"
proof -
  note r = clearAuth_result[OF c]
  let ?b = "((\<lambda>x. snd (getAuthToken x)) ^^ n) b1"
  from getAuthToken_iterate[of n b1] r have t: "fst (getAuthToken ?b) = Inr None" by simp
  { assume h: "headers cfg ''Authorization'' = None"
      and s: "send J net k cfg rc ?b = (res, rc', b2, tr)" and d: "Dispatch c \<in> set tr"
    from send_dispatch[OF s t d] h have "headers c ''Authorization'' = None"
      by (simp add: attach_def truthy_def) }
  with r t show ?thesis by blast
qed

text \<open>A mobile browser holding the token in both areas; two reads after \<^verbatim>\<open>clearAuth()\<close>, then the dashboard request.\<close>

theorem clearAuth_then_no_token_witness:
  "fst (getAuthToken example_mobile) = Inr (Some ''abc'')
   \<and> fst (clearAuth example_mobile) = Inr ()
   \<and> fst (getAuthToken example_cleared) = Inr None
   \<and> headers (example_request ''get'' ''/dashboard/stats'') ''Authorization'' = None
   \<and> Dispatch (last (dispatched (events_of (send example_json example_online 0
         (example_request ''get'' ''/dashboard/stats'') retryConfig example_cleared))))
       \<in> set (events_of (send example_json example_online 0
         (example_request ''get'' ''/dashboard/stats'') retryConfig example_cleared))
   \<and> headers (last (dispatched (events_of (send example_json example_online 0
         (example_request ''get'' ''/dashboard/stats'') retryConfig example_cleared))))
         ''Authorization'' = None"
proof -
  let ?s = "send example_json example_online 0 (example_request ''get'' ''/dashboard/stats'')
              retryConfig example_cleared"
  have c: "clearAuth example_mobile = (fst (clearAuth example_mobile), snd (clearAuth example_mobile))"
    by simp
  have e: "send example_json example_online 0 (example_request ''get'' ''/dashboard/stats'')
              retryConfig (((\<lambda>x. snd (getAuthToken x)) ^^ 2) (snd (clearAuth example_mobile)))
           = (fst ?s, fst (snd ?s), fst (snd (snd ?s)), snd (snd (snd ?s)))"
    by (simp add: example_cleared_def)
  have g: "fst (getAuthToken example_mobile) = Inr (Some ''abc'')"
    by (simp add: model_defs)
  have h: "headers (example_request ''get'' ''/dashboard/stats'') ''Authorization'' = None"
    by (simp add: example_request_def)
  have d: "Dispatch (last (dispatched (snd (snd (snd ?s))))) \<in> set (snd (snd (snd ?s)))"
    by (simp add: model_defs example_cleared_def numeral_2_eq_2)
  from clearAuth_then_no_token[OF c, of 2 "example_request ''get'' ''/dashboard/stats''"
      example_json example_online 0 retryConfig "fst ?s" "fst (snd ?s)" "fst (snd (snd ?s))"
      "snd (snd (snd ?s))" "last (dispatched (snd (snd (snd ?s))))"] e g h d
  show ?thesis unfolding example_cleared_def obs_defs by blast
qed

text \<open>
  The counterexample to C7 as stated: the dashboard request is dispatched with the token
  \<^verbatim>\<open>abc\<close> and answered with status 503, so the error handler schedules a retry of the
  configuration it was dispatched with; \<^verbatim>\<open>clearAuth()\<close> runs during the delay and
  \<^verbatim>\<open>getAuthToken()\<close> returns \<^verbatim>\<open>null\<close> from then on; the retry, the next outbound request,
  is dispatched with \<^verbatim>\<open>Authorization: Bearer abc\<close>.
\<close>

theorem retry_after_clearAuth_keeps_token:
  "pass example_json (example_failing 0) (example_request ''get'' ''/dashboard/stats'') example_browser
     = (Inl (AxiosError None (Some \<lparr>data = 0, status = 503\<rparr>) example_pending),
        example_browser, [Dispatch example_pending])
   \<and> response_rejected (AxiosError None (Some \<lparr>data = 0, status = 503\<rparr>) example_pending) retryConfig
     = (Retry example_pending 1000, \<lparr>retries = 2, retryDelay = 1000\<rparr>)
   \<and> fst (clearAuth example_browser) = Inr ()
   \<and> fst (getAuthToken (snd (clearAuth example_browser))) = Inr None
   \<and> map (\<lambda>c. headers c ''Authorization'')
        (dispatched (events_of (send example_json example_online 1 example_pending
           \<lparr>retries = 2, retryDelay = 1000\<rparr> (snd (clearAuth example_browser)))))
      = [Some ''Bearer abc'']"
  by (simp add: model_defs example_pending_def)

text \<open>
  Claim C8. None of \<^verbatim>\<open>setAuthToken\<close>, \<^verbatim>\<open>getAuthToken\<close>, \<^verbatim>\<open>clearAuth\<close>, \<^verbatim>\<open>setUser\<close>,
  \<^verbatim>\<open>getUser\<close> and the response success handler ever throws, whatever the state of the
  storage areas and whatever \<^verbatim>\<open>JSON\<close> does, and a request dispatched while online and
  fulfilled by the adapter resolves with that response in every state of the storage.
  Every failing storage access is logged, once, and nothing is logged otherwise:
  \<^item> \<^verbatim>\<open>setAuthToken\<close> with a truthy token logs \<^verbatim>\<open>Storage not available:\<close> exactly when
    \<^verbatim>\<open>localStorage\<close> is blocked or full, or the user agent is mobile and \<^verbatim>\<open>sessionStorage\<close>
    is blocked or full; with a falsy token, exactly when one of the two areas is blocked;
  \<^item> \<^verbatim>\<open>clearAuth\<close> logs it exactly when one of the two areas is blocked;
  \<^item> \<^verbatim>\<open>setUser\<close> logs it exactly when \<^verbatim>\<open>JSON.stringify\<close> throws, \<^verbatim>\<open>localStorage\<close> is blocked
    or full, or the user agent is mobile and \<^verbatim>\<open>sessionStorage\<close> is blocked or full;
  \<^item> \<^verbatim>\<open>getAuthToken\<close> logs it and returns \<^verbatim>\<open>null\<close> exactly when \<^verbatim>\<open>localStorage\<close> is blocked, or
    its token is falsy, the user agent is mobile and \<^verbatim>\<open>sessionStorage\<close> is blocked; otherwise
    it returns the stored token and changes nothing; \<^verbatim>\<open>getUser\<close> likewise, and also when
    \<^verbatim>\<open>JSON.parse\<close> throws;
  \<^item> the cache write of a \<^verbatim>\<open>get\<close> response received online logs \<^verbatim>\<open>Cache storage failed:\<close>
    and changes nothing else exactly when \<^verbatim>\<open>JSON.stringify\<close> throws or \<^verbatim>\<open>localStorage\<close> is
    blocked or full; otherwise it stores the entry; the response is returned in every case.
\<close>
theorem storage_failures_tolerated:
  "fst (setAuthToken token b) = Inr ()
   \<and> (\<exists>t. fst (getAuthToken b) = Inr t)
   \<and> fst (clearAuth b) = Inr ()
   \<and> fst (setUser J user b) = Inr ()
   \<and> (\<exists>u. fst (getUser J b) = Inr u)
   \<and> fst (response_fulfilled J onLine now cfg response b) = Inr response
   \<and> (blocked (localStorage b) \<longrightarrow>
        console (snd (setAuthToken token b)) = console b @ [''Storage not available:'']
      \<and> getAuthToken b = (Inr None, b\<lparr>console := console b @ [''Storage not available:'']\<rparr>)
      \<and> console (snd (clearAuth b)) = console b @ [''Storage not available:'']
      \<and> console (snd (setUser J user b)) = console b @ [''Storage not available:'']
      \<and> getUser J b = (Inr None, b\<lparr>console := console b @ [''Storage not available:'']\<rparr>))
   \<and> (full (localStorage b) \<and> truthy token \<longrightarrow>
        setAuthToken token b = (Inr (), b\<lparr>console := console b @ [''Storage not available:'']\<rparr>))
   \<and> (http_method cfg = ''get'' \<and> onLine \<and> (blocked (localStorage b) \<or> full (localStorage b)) \<longrightarrow>
        response_fulfilled J onLine now cfg response b
          = (Inr response, b\<lparr>console := console b @ [''Cache storage failed:'']\<rparr>))
   \<and> (onLine_request (net k) \<and> adapter (net k) = Fulfilled d s \<longrightarrow>
        fst (send J net k cfg rc b) = Inr \<lparr>data = d, status = s\<rparr>)
   \<and> console (snd (setAuthToken token b)) =
        (if (if truthy token
             then blocked (localStorage b) \<or> full (localStorage b)
                  \<or> (mobile b \<and> (blocked (sessionStorage b) \<or> full (sessionStorage b)))
             else blocked (localStorage b) \<or> blocked (sessionStorage b))
         then console b @ [''Storage not available:''] else console b)
   \<and> getAuthToken b =
        (if blocked (localStorage b)
            \<or> (\<not> truthy (items (localStorage b) ''token'') \<and> mobile b
                 \<and> blocked (sessionStorage b))
         then (Inr None, b\<lparr>console := console b @ [''Storage not available:'']\<rparr>)
         else (Inr (if \<not> truthy (items (localStorage b) ''token'') \<and> mobile b
                    then items (sessionStorage b) ''token''
                    else items (localStorage b) ''token''), b))
   \<and> console (snd (clearAuth b)) =
        (if blocked (localStorage b) \<or> blocked (sessionStorage b)
         then console b @ [''Storage not available:''] else console b)
   \<and> console (snd (setUser J user b)) =
        (if isl (stringify_user J user)
            \<or> blocked (localStorage b) \<or> full (localStorage b)
            \<or> (mobile b \<and> (blocked (sessionStorage b) \<or> full (sessionStorage b)))
         then console b @ [''Storage not available:''] else console b)
   \<and> getUser J b =
        (let stored = (if \<not> truthy (items (localStorage b) ''user'') \<and> mobile b
                       then items (sessionStorage b) ''user''
                       else items (localStorage b) ''user'')
         in if blocked (localStorage b)
               \<or> (\<not> truthy (items (localStorage b) ''user'') \<and> mobile b
                    \<and> blocked (sessionStorage b))
               \<or> (truthy stored \<and> isl (parse_user J (the stored)))
            then (Inr None, b\<lparr>console := console b @ [''Storage not available:'']\<rparr>)
            else (if truthy stored then Inr (projr (parse_user J (the stored))) else Inr None, b))
   \<and> response_fulfilled J onLine now cfg response b =
        (Inr response,
         if http_method cfg = ''get'' \<and> onLine then
           (if isl (stringify_entry J (data response) now)
               \<or> blocked (localStorage b) \<or> full (localStorage b)
            then b\<lparr>console := console b @ [''Cache storage failed:'']\<rparr>
            else b\<lparr>localStorage := (localStorage b)\<lparr>items := (items (localStorage b))
                     (''api-cache-'' @ http_method cfg @ ''-'' @ url cfg
                        \<mapsto> projr (stringify_entry J (data response) now))\<rparr>\<rparr>)
         else b)"
proof -
  note g = getAuthToken_exact[of b] and u = getUser_exact[of J b]
    and r = response_fulfilled_exact[of J onLine now cfg response b]
    and sa = setAuthToken_logs[of token b] and ca = clearAuth_logs[of b]
    and su = setUser_logs[of J user b]
  have 1: "fst (setAuthToken token b) = Inr ()"
    by (auto simp: setAuthToken_def isMobile_def js_defs split: sum.splits prod.splits)
  have 2: "\<exists>t. fst (getAuthToken b) = Inr t"
    by (auto simp: getAuthToken_def isMobile_def js_defs split: sum.splits prod.splits)
  have 3: "fst (clearAuth b) = Inr ()"
    by (auto simp: clearAuth_def js_defs split: sum.splits prod.splits)
  have 4: "fst (setUser J user b) = Inr ()"
    by (auto simp: setUser_def isMobile_def js_defs split: sum.splits prod.splits)
  have 5: "\<exists>u. fst (getUser J b) = Inr u"
    by (auto simp: getUser_def isMobile_def js_defs split: sum.splits prod.splits)
  have 6: "fst (response_fulfilled J onLine now cfg response b) = Inr response"
    by (auto simp: response_fulfilled_def Let_def js_defs split: sum.splits prod.splits)
  have 7: "blocked (localStorage b) \<longrightarrow>
        console (snd (setAuthToken token b)) = console b @ [''Storage not available:'']
      \<and> getAuthToken b = (Inr None, b\<lparr>console := console b @ [''Storage not available:'']\<rparr>)
      \<and> console (snd (clearAuth b)) = console b @ [''Storage not available:'']
      \<and> console (snd (setUser J user b)) = console b @ [''Storage not available:'']
      \<and> getUser J b = (Inr None, b\<lparr>console := console b @ [''Storage not available:'']\<rparr>)"
    by (auto simp: setAuthToken_def getAuthToken_def clearAuth_def setUser_def getUser_def js_defs
          split: sum.splits)
  have 8: "full (localStorage b) \<and> truthy token \<longrightarrow>
        setAuthToken token b = (Inr (), b\<lparr>console := console b @ [''Storage not available:'']\<rparr>)"
    by (auto simp: setAuthToken_def js_defs)
  have 9: "http_method cfg = ''get'' \<and> onLine \<and> (blocked (localStorage b) \<or> full (localStorage b)) \<longrightarrow>
        response_fulfilled J onLine now cfg response b
          = (Inr response, b\<lparr>console := console b @ [''Cache storage failed:'']\<rparr>)"
    by (auto simp: response_fulfilled_def Let_def js_defs split: sum.splits)
  have 10: "onLine_request (net k) \<and> adapter (net k) = Fulfilled d s \<longrightarrow>
        fst (send J net k cfg rc b) = Inr \<lparr>data = d, status = s\<rparr>"
    using send_first_fulfilled[of net k cfg d s J rc b] by blast
  show ?thesis
    by (intro conjI) (rule 1 2 3 4 5 6 7 8 9 10 sa g ca su u r)+
qed

text \<open>
  A browser whose storage is blocked and full; and a mobile browser whose \<^verbatim>\<open>localStorage\<close>
  is full and whose \<^verbatim>\<open>sessionStorage\<close> is blocked, where reading the stored token fails
  nowhere and logs nothing.
\<close>

theorem storage_failures_tolerated_witness:
  "blocked (localStorage example_unavailable) \<and> full (localStorage example_unavailable)
   \<and> truthy (Some ''xyz'')
   \<and> setItem (localStorage example_unavailable) ''token'' ''xyz'' = Inl SecurityError
   \<and> http_method (example_request ''get'' ''/dashboard/stats'') = ''get''
   \<and> onLine_request (example_online 0) \<and> adapter (example_online 0) = Fulfilled 5 200
   \<and> setAuthToken (Some ''xyz'') example_unavailable
        = (Inr (), example_unavailable\<lparr>console := console example_unavailable @ [''Storage not available:'']\<rparr>)
   \<and> getAuthToken example_unavailable
        = (Inr None, example_unavailable\<lparr>console := console example_unavailable @ [''Storage not available:'']\<rparr>)
   \<and> fst (clearAuth example_unavailable) = Inr ()
   \<and> console (snd (clearAuth example_unavailable)) = console example_unavailable @ [''Storage not available:'']
   \<and> fst (setUser example_json ''alice'' example_unavailable) = Inr ()
   \<and> console (snd (setUser example_json ''alice'' example_unavailable))
        = console example_unavailable @ [''Storage not available:'']
   \<and> getUser example_json example_unavailable
        = (Inr None, example_unavailable\<lparr>console := console example_unavailable @ [''Storage not available:'']\<rparr>)
   \<and> response_fulfilled example_json True 1000 (example_request ''get'' ''/dashboard/stats'')
        \<lparr>data = 5, status = 200\<rparr> example_unavailable
        = (Inr \<lparr>data = 5, status = 200\<rparr>,
           example_unavailable\<lparr>console := console example_unavailable @ [''Cache storage failed:'']\<rparr>)
   \<and> result_of (send example_json example_online 0 (example_request ''get'' ''/dashboard/stats'')
            retryConfig example_unavailable) = Inr \<lparr>data = 5, status = 200\<rparr>
   \<and> mobile example_quota \<and> \<not> blocked (localStorage example_quota)
   \<and> full (localStorage example_quota) \<and> blocked (sessionStorage example_quota)
   \<and> console (snd (setAuthToken (Some ''xyz'') example_quota)) = [''Storage not available:'']
   \<and> console (snd (setUser example_json ''alice'' example_quota)) = [''Storage not available:'']
   \<and> console (snd (clearAuth example_quota)) = [''Storage not available:'']
   \<and> getAuthToken example_quota = (Inr (Some ''abc''), example_quota)
   \<and> getUser example_json example_quota
        = (Inr None, example_quota\<lparr>console := [''Storage not available:'']\<rparr>)"
proof -
  have p: "blocked (localStorage example_unavailable)" "full (localStorage example_unavailable)"
    "truthy (Some ''xyz'')"
    "setItem (localStorage example_unavailable) ''token'' ''xyz'' = Inl SecurityError"
    "http_method (example_request ''get'' ''/dashboard/stats'') = ''get''"
    "onLine_request (example_online 0)" "adapter (example_online 0) = Fulfilled 5 200"
    by (simp_all add: example_unavailable_def truthy_def setItem_def example_request_def
          example_online_def)
  have q: "mobile example_quota" "\<not> blocked (localStorage example_quota)"
    "full (localStorage example_quota)" "blocked (sessionStorage example_quota)"
    "console example_quota = []"
    "truthy (items (localStorage example_quota) ''token'')"
    "items (localStorage example_quota) ''token'' = Some ''abc''"
    "\<not> truthy (items (localStorage example_quota) ''user'')"
    "\<not> isl (stringify_user example_json ''alice'')"
    by (simp_all add: example_quota_def mobile_def isMobile_def lower_def truthy_def
          example_json_def)
  note A = storage_failures_tolerated[of "Some ''xyz''" example_unavailable example_json "''alice''"
      True 1000 "example_request ''get'' ''/dashboard/stats''" "\<lparr>data = 5, status = 200\<rparr>"
      example_online 0 5 200 retryConfig]
  note B = storage_failures_tolerated[of "Some ''xyz''" example_quota example_json "''alice''"
      True 1000 "example_request ''get'' ''/dashboard/stats''" "\<lparr>data = 5, status = 200\<rparr>"
      example_online 0 5 200 retryConfig]
  from A p have a: "setAuthToken (Some ''xyz'') example_unavailable
        = (Inr (), example_unavailable\<lparr>console := console example_unavailable @ [''Storage not available:'']\<rparr>)"
    "getAuthToken example_unavailable
        = (Inr None, example_unavailable\<lparr>console := console example_unavailable @ [''Storage not available:'']\<rparr>)"
    "fst (clearAuth example_unavailable) = Inr ()"
    "console (snd (clearAuth example_unavailable)) = console example_unavailable @ [''Storage not available:'']"
    "fst (setUser example_json ''alice'' example_unavailable) = Inr ()"
    "console (snd (setUser example_json ''alice'' example_unavailable))
        = console example_unavailable @ [''Storage not available:'']"
    "getUser example_json example_unavailable
        = (Inr None, example_unavailable\<lparr>console := console example_unavailable @ [''Storage not available:'']\<rparr>)"
    "response_fulfilled example_json True 1000 (example_request ''get'' ''/dashboard/stats'')
        \<lparr>data = 5, status = 200\<rparr> example_unavailable
        = (Inr \<lparr>data = 5, status = 200\<rparr>,
           example_unavailable\<lparr>console := console example_unavailable @ [''Cache storage failed:'']\<rparr>)"
    "fst (send example_json example_online 0 (example_request ''get'' ''/dashboard/stats'')
            retryConfig example_unavailable) = Inr \<lparr>data = 5, status = 200\<rparr>"
    by blast+
  from B have b1: "console (snd (setAuthToken (Some ''xyz'') example_quota)) =
        (if (if truthy (Some ''xyz'')
             then blocked (localStorage example_quota) \<or> full (localStorage example_quota)
                  \<or> (mobile example_quota \<and> (blocked (sessionStorage example_quota) \<or> full (sessionStorage example_quota)))
             else blocked (localStorage example_quota) \<or> blocked (sessionStorage example_quota))
         then console example_quota @ [''Storage not available:''] else console example_quota)"
    by blast
  from B have b2: "console (snd (setUser example_json ''alice'' example_quota)) =
        (if isl (stringify_user example_json ''alice'')
            \<or> blocked (localStorage example_quota) \<or> full (localStorage example_quota)
            \<or> (mobile example_quota \<and> (blocked (sessionStorage example_quota) \<or> full (sessionStorage example_quota)))
         then console example_quota @ [''Storage not available:''] else console example_quota)"
    by blast
  from B have b3: "console (snd (clearAuth example_quota)) =
        (if blocked (localStorage example_quota) \<or> blocked (sessionStorage example_quota)
         then console example_quota @ [''Storage not available:''] else console example_quota)"
    by blast
  from B have b4: "getAuthToken example_quota =
        (if blocked (localStorage example_quota)
            \<or> (\<not> truthy (items (localStorage example_quota) ''token'') \<and> mobile example_quota
                 \<and> blocked (sessionStorage example_quota))
         then (Inr None, example_quota\<lparr>console := console example_quota @ [''Storage not available:'']\<rparr>)
         else (Inr (if \<not> truthy (items (localStorage example_quota) ''token'') \<and> mobile example_quota
                    then items (sessionStorage example_quota) ''token''
                    else items (localStorage example_quota) ''token''), example_quota))"
    by blast
  from B have b5: "getUser example_json example_quota =
        (let stored = (if \<not> truthy (items (localStorage example_quota) ''user'') \<and> mobile example_quota
                       then items (sessionStorage example_quota) ''user''
                       else items (localStorage example_quota) ''user'')
         in if blocked (localStorage example_quota)
               \<or> (\<not> truthy (items (localStorage example_quota) ''user'') \<and> mobile example_quota
                    \<and> blocked (sessionStorage example_quota))
               \<or> (truthy stored \<and> isl (parse_user example_json (the stored)))
            then (Inr None, example_quota\<lparr>console := console example_quota @ [''Storage not available:'']\<rparr>)
            else (if truthy stored then Inr (projr (parse_user example_json (the stored))) else Inr None, example_quota))"
    by blast
  from b1 p(3) q have c1: "console (snd (setAuthToken (Some ''xyz'') example_quota)) = [''Storage not available:'']"
    by simp
  from b2 q have c2: "console (snd (setUser example_json ''alice'' example_quota)) = [''Storage not available:'']"
    by simp
  from b3 q have c3: "console (snd (clearAuth example_quota)) = [''Storage not available:'']"
    by simp
  from b4 q have c4: "getAuthToken example_quota = (Inr (Some ''abc''), example_quota)"
    by simp
  from b5 q have c5: "getUser example_json example_quota
        = (Inr None, example_quota\<lparr>console := [''Storage not available:'']\<rparr>)"
    by (simp add: Let_def)
  from p a q(1-4) c1 c2 c3 c4 c5 show ?thesis by (simp add: obs_defs)
qed

text \<open>
  Claim C9. A send changes nothing in \<^verbatim>\<open>sessionStorage\<close>, and in \<^verbatim>\<open>localStorage\<close> at most the
  value under the key \<^verbatim>\<open>api-cache-<method>-<url>\<close> of the request. The \<^verbatim>\<open>token\<close> and \<^verbatim>\<open>user\<close>
  keys keep their values, and \<^verbatim>\<open>getAuthToken()\<close> and \<^verbatim>\<open>getUser()\<close> return after the send
  what they returned before it.
\<close>
theorem send_only_writes_cache:
  assumes s: "send J net k cfg rc b = (res, rc', b', tr)"
  shows "sessionStorage b' = sessionStorage b
       \<and> blocked (localStorage b') = blocked (localStorage b)
       \<and> full (localStorage b') = full (localStorage b)
       \<and> (\<forall>key. items (localStorage b') key \<noteq> items (localStorage b) key \<longrightarrow>
              key = ''api-cache-'' @ http_method cfg @ ''-'' @ url cfg)
       \<and> items (localStorage b') ''token'' = items (localStorage b) ''token''
       \<and> items (localStorage b') ''user'' = items (localStorage b) ''user''
       \<and> fst (getAuthToken b') = fst (getAuthToken b)
       \<and> fst (getUser J' b') = fst (getUser J' b)"
proof -
  note f = send_frame[OF s]
  from f have ss: "sessionStorage b' = sessionStorage b" and ua: "userAgent b' = userAgent b"
    by simp_all
  from f have ls: "blocked (localStorage b') = blocked (localStorage b)
       \<and> full (localStorage b') = full (localStorage b)
       \<and> (\<forall>key. items (localStorage b') key \<noteq> items (localStorage b) key \<longrightarrow>
              key = ''api-cache-'' @ http_method cfg @ ''-'' @ url cfg)
       \<and> items (localStorage b') ''token'' = items (localStorage b) ''token''
       \<and> items (localStorage b') ''user'' = items (localStorage b) ''user''"
    by (elim conjE disjE exE) simp_all
  from ls ss ua getAuthToken_depends[of b' b] getUser_depends[of b' b J']
  show ?thesis by simp
qed



text \<open>The dashboard request fetched online: the one key that changes is its cache key.\<close>

theorem send_only_writes_cache_witness:
  "items (localStorage (browser_of (send example_json example_online 0
        (example_request ''get'' ''/dashboard/stats'') retryConfig example_browser)))
        ''api-cache-get-/dashboard/stats''
      = Some ''{data:{code_submissions:5},timestamp:1000}''
   \<and> items (localStorage example_browser) ''api-cache-get-/dashboard/stats'' = None
   \<and> ''api-cache-get-/dashboard/stats'' = ''api-cache-'' @ http_method (example_request ''get'' ''/dashboard/stats'')
         @ ''-'' @ url (example_request ''get'' ''/dashboard/stats'')
   \<and> items (localStorage (browser_of (send example_json example_online 0
        (example_request ''get'' ''/dashboard/stats'') retryConfig example_browser))) ''token''
      = Some ''abc''
   \<and> fst (getAuthToken (browser_of (send example_json example_online 0
        (example_request ''get'' ''/dashboard/stats'') retryConfig example_browser)))
      = Inr (Some ''abc'')"
proof -
  let ?s = "send example_json example_online 0 (example_request ''get'' ''/dashboard/stats'')
              retryConfig example_browser"
  have e: "?s = (fst ?s, fst (snd ?s), fst (snd (snd ?s)), snd (snd (snd ?s)))" by simp
  have v: "items (localStorage (fst (snd (snd ?s)))) ''api-cache-get-/dashboard/stats''
      = Some ''{data:{code_submissions:5},timestamp:1000}''" by (simp add: model_defs)
  have o: "items (localStorage example_browser) ''api-cache-get-/dashboard/stats'' = None"
    "items (localStorage example_browser) ''token'' = Some ''abc''"
    "fst (getAuthToken example_browser) = Inr (Some ''abc'')"
    "''api-cache-get-/dashboard/stats'' = ''api-cache-'' @ http_method (example_request ''get'' ''/dashboard/stats'')
         @ ''-'' @ url (example_request ''get'' ''/dashboard/stats'')"
    by (simp_all add: model_defs)
  from send_only_writes_cache[OF e, of example_json] v o show ?thesis by (simp add: obs_defs)
qed



end
